theory Spec2Isabelle
  imports Main "HOL-Library.Word"
begin

unbundle bit_operations_syntax

section \<open>Go base types and formatting\<close>

text \<open>
  The streaming client of the repository (package \<open>streaming\<close>) is embedded function by
  function. Go's fixed-width integers are words: \<open>int64\<close> and \<open>int\<close> (64 bits on every
  platform on which \<open>rand.N(1<<48)\<close> compiles) are \<open>64 word\<close>, \<open>int32\<close> is \<open>32 word\<close>,
  \<open>int16\<close> is \<open>16 word\<close>; \<open>sint\<close> reads the signed value. A \<open>[]byte\<close> is a list of
  \<open>8 word\<close>, a Go \<open>string\<close> is a \<open>string\<close>.
\<close>

type_synonym int64 = "64 word"
type_synonym int32 = "32 word"
type_synonym int16 = "16 word"
type_synonym bytes = "8 word list"

text \<open>The verb \<open>%d\<close> of \<open>fmt.Sprintf\<close>: the decimal digits, most significant first,
  after a minus sign for a negative number.\<close>

definition digit :: "nat \<Rightarrow> char" where
  "digit d = ''0123456789'' ! (d mod 10)"

function show_nat :: "nat \<Rightarrow> string" where
  "show_nat n = (if n < 10 then [digit n] else show_nat (n div 10) @ [digit (n mod 10)])"
  by pat_completeness auto
termination
  by (relation "measure id") auto

declare show_nat.simps [simp del]

definition show_int :: "int \<Rightarrow> string" where
  "show_int i = (if i < 0 then CHR ''-'' # show_nat (nat (- i)) else show_nat (nat i))"

text \<open>\<open>fmt.Sprintf("%s_%d", s, n)\<close> for a 64-bit signed \<open>n\<close>.\<close>

definition sprintf_s_d :: "string \<Rightarrow> int64 \<Rightarrow> string" where
  "sprintf_s_d s n = s @ ''_'' @ show_int (sint n)"

text \<open>Reading a decimal numeral back; used only to show that \<open>%d\<close> loses nothing.\<close>

definition digit_val :: "char \<Rightarrow> nat" where
  "digit_val c = of_char c - 48"

definition read_nat :: "string \<Rightarrow> nat" where
  "read_nat s = foldl (\<lambda>a c. 10 * a + digit_val c) 0 s"

text \<open>\<open>path.Base\<close> of the Go standard library: trailing slashes are removed, then
  everything up to the last slash; the empty path gives \<open>.\<close>, a path of slashes \<open>/\<close>.\<close>

definition path_Base :: "string \<Rightarrow> string" where
  "path_Base p =
     (if p = [] then ''.''
      else let q = rev (dropWhile (\<lambda>c. c = CHR ''/'') (rev p));
               b = rev (takeWhile (\<lambda>c. c \<noteq> CHR ''/'') (rev q))
           in if b = [] then ''/'' else b)"

text \<open>\<open>rand.N(n)\<close> of \<open>math/rand/v2\<close> returns a value in \<open>[0, n)\<close>; which one is decided
  by the generator's state, here the raw draw \<open>r\<close>.\<close>

definition rand_N :: "nat \<Rightarrow> nat \<Rightarrow> nat" where
  "rand_N n r = r mod n"

section \<open>Errors\<close>

text \<open>
  One constructor for each error value the source builds, in the order of the source, and
  \<open>Collaborator\<close> for an error handed up unchanged from a collaborator (transport, encoder,
  crypto, uploader). \<open>Permanent\<close> is \<open>backoff.Permanent\<close>; \<open>Panic\<close> is a run-time panic
  (a slice bound beyond the slice, a call on a nil interface), which ends the call.
\<close>

datatype error =
    Collaborator string
  | InitClientStatus int string
  | InitStageUploader error
  | OpenChannelStatus string int string
  | StatusChannelStatus string int string
  | FetchChannelCount string nat
  | StatusChannelEntry string int
  | DropChannelStatus string int string
  | ParseParquetMetadata error
  | AcquireStageUploader error
  | UnexpectedBlobs nat
  | UnexpectedChunks nat
  | UnexpectedChannels nat
  | IngestStatus int string
  | FetchStatus int string
  | UnexpectedStatusChannels nat
  | RowSequencerNotCommitted int int
  | Permanent error
  | Panic string

text \<open>\<open>errors.As(err, &permanent)\<close>: the first \<open>PermanentError\<close> on the chain of wrapped
  errors (\<open>%w\<close> wraps, \<open>PermanentError\<close> unwraps to its cause).\<close>

fun asPermanent :: "error \<Rightarrow> error option" where
  "asPermanent (Permanent e) = Some e"
| "asPermanent (InitStageUploader e) = asPermanent e"
| "asPermanent (ParseParquetMetadata e) = asPermanent e"
| "asPermanent (AcquireStageUploader e) = asPermanent e"
| "asPermanent _ = None"

section \<open>Retrying with a back-off policy\<close>

text \<open>
  \<open>backoff.Retry(operation, b)\<close> of the module \<open>github.com/cenkalti/backoff/v4\<close>: the
  operation runs; on \<open>nil\<close> the loop returns \<open>nil\<close>; on a permanent error it returns the
  wrapped cause; otherwise the policy is asked for the next delay, and the loop returns
  the operation's error when the policy answers \<open>Stop\<close> (the context's error when the
  context is done), and sleeps for the delay and runs the operation again otherwise.
  A policy enters as the list of the delays (in milliseconds) it grants before it answers
  \<open>Stop\<close>, and the context as \<open>cerr\<close>, its error when the loop stops. A sleep that the
  context cuts short ends the loop as \<open>Stop\<close> does, with the context's error: its delay
  is not among the granted ones. The operation gets
  the number of the attempt, from 0, and the state it changes; \<open>sleep\<close> records a delay
  in the state.
\<close>

fun Retry :: "(nat \<Rightarrow> 's \<Rightarrow> error option \<times> 's) \<Rightarrow> (nat \<Rightarrow> 's \<Rightarrow> 's) \<Rightarrow> nat list
    \<Rightarrow> error option \<Rightarrow> nat \<Rightarrow> 's \<Rightarrow> error option \<times> 's" where
  "Retry operation sleep [] cerr i s =
     (case operation i s of
        (None, s') \<Rightarrow> (None, s')
      | (Some e, s') \<Rightarrow>
          (case asPermanent e of
             Some p \<Rightarrow> (Some p, s')
           | None \<Rightarrow> (case cerr of Some ce \<Rightarrow> (Some ce, s') | None \<Rightarrow> (Some e, s'))))"
| "Retry operation sleep (d # ds) cerr i s =
     (case operation i s of
        (None, s') \<Rightarrow> (None, s')
      | (Some e, s') \<Rightarrow>
          (case asPermanent e of
             Some p \<Rightarrow> (Some p, s')
           | None \<Rightarrow> Retry operation sleep ds cerr (Suc i) (sleep d s')))"

text \<open>\<open>backoff.WithMaxRetries(backoff.NewConstantBackOff(d), max)\<close>: the constant policy
  always grants \<open>d\<close>; the wrapper counts the delays it has handed out and answers \<open>Stop\<close>
  once they are \<open>max\<close>. The pair grants \<open>max\<close> delays of \<open>d\<close>.\<close>

definition WithMaxRetries_Constant :: "nat \<Rightarrow> nat \<Rightarrow> nat list" where
  "WithMaxRetries_Constant d mx = replicate mx d"

section \<open>Requests and responses of the control plane\<close>

text \<open>
  The request and response structs are declared with the REST client, outside the files
  at hand; each record has the fields that the composite literals of the source set and
  the fields that the source reads, under the source's names, with the suffix of its
  struct. \<open>responseSuccess\<close> is the status code that the source compares with.
\<close>

text \<open>Modelled from the spec: the constant \<open>responseSuccess\<close> is declared with the REST
  client; the spec says that one fixed success value is the only code treated as
  success. No statement below depends on which value it is.\<close>

definition responseSuccess :: int where
  "responseSuccess = 0"

record openChannelRequest =
  RequestID_oc :: string
  Role_oc :: string
  Channel_oc :: string
  Database_oc :: string
  Schema_oc :: string
  Table_oc :: string
  WriteMode_oc :: string

record openChannelResponse =
  StatusCode_ocr :: int
  Message_ocr :: string
  TableColumns_ocr :: "string list"
  EncryptionKeyID_ocr :: int64
  EncryptionKey_ocr :: string
  ClientSequencer_ocr :: int64
  RowSequencer_ocr :: int64

record dropChannelRequest =
  RequestID_dc :: string
  Role_dc :: string
  Channel_dc :: string
  Table_dc :: string
  Database_dc :: string
  Schema_dc :: string

record dropChannelResponse =
  StatusCode_dcr :: int
  Message_dcr :: string

text \<open>\<open>ClientSequencer\<close> of a status request is a pointer: \<open>nil\<close> when the literal leaves
  it out.\<close>

record channelStatusRequest =
  Name_cs :: string
  Table_cs :: string
  Database_cs :: string
  Schema_cs :: string
  ClientSequencer_cs :: "int64 option"

record batchChannelStatusRequest =
  Role_bcs :: string
  Channels_bcs :: "channelStatusRequest list"

record channelStatusResponse =
  StatusCode_csr :: int
  PersistedOffsetToken_csr :: string
  PersistedClientSequencer_csr :: int64
  PersistedRowSequencer_csr :: int64

record batchChannelStatusResponse =
  StatusCode_bcsr :: int
  Message_bcsr :: string
  Channels_bcsr :: "channelStatusResponse list"

record channelMetadata =
  Channel_cm :: string
  ClientSequencer_cm :: int64
  RowSequencer_cm :: int64
  StartOffsetToken_cm :: "string option"
  EndOffsetToken_cm :: "string option"
  OffsetToken_cm :: "string option"

record epInfo =
  Rows_ep :: int64
  Columns_ep :: "string list"

record chunkMetadata =
  Database_ch :: string
  Schema_ch :: string
  Table_ch :: string
  ChunkStartOffset_ch :: int64
  ChunkLength_ch :: int32
  ChunkLengthUncompressed_ch :: int32
  ChunkMD5_ch :: string
  EncryptionKeyID_ch :: int64
  FirstInsertTimeInMillis_ch :: int64
  LastInsertTimeInMillis_ch :: int64
  EPS_ch :: epInfo
  Channels_ch :: "channelMetadata list"

record blobStats =
  FlushStartMs_bs :: int64
  BuildDurationMs_bs :: int64
  UploadDurationMs_bs :: int64

record blobMetadata =
  Path_bm :: string
  MD5_bm :: string
  BDECVersion_bm :: int
  BlobStats_bm :: blobStats
  Chunks_bm :: "chunkMetadata list"

record registerBlobRequest =
  RequestID_rb :: string
  Role_rb :: string
  Blobs_rb :: "blobMetadata list"

record channelRegisterStatus =
  StatusCode_crs :: int
  Message_crs :: string
  ClientSequencer_crs :: int64

record chunkRegisterStatus =
  Channels_chrs :: "channelRegisterStatus list"

record blobRegisterStatus =
  Chunks_brs :: "chunkRegisterStatus list"

record registerBlobResponse =
  Blobs_rbr :: "blobRegisterStatus list"

record clientConfigureResponse =
  StatusCode_cc :: int
  Message_cc :: string
  StageLocation_cc :: string
  Prefix_cc :: string
  DeploymentID_cc :: int64

section \<open>Client, channel and shared state\<close>

record ClientOptions =
  Account :: string
  User :: string
  Role :: string
  ConnectVersion :: string
  Application :: string

text \<open>An uploader is known by the stage location it was built from; what a \<open>put\<close> does
  is the remote side's answer (\<open>upload\<close> below).\<close>

datatype uploader = Uploader string

record stageUploaderResult =
  uploader :: "uploader option"
  err :: "error option"

text \<open>What leaves the process, in order: the calls of the control plane, the uploads to
  the stage, and the delays slept between two attempts of a retried operation.\<close>

datatype event =
    ConfigureCall string
  | OpenChannelCall openChannelRequest
  | DropChannelCall dropChannelRequest
  | ChannelStatusCall batchChannelStatusRequest
  | RegisterBlobCall registerBlobRequest
  | UploadCall uploader string bytes bytes
  | Sleep nat

text \<open>
  The client and its channels hold pointers to one \<open>atomic.Int64\<close> (\<open>requestIDCounter\<close>)
  and one atomic cell (\<open>uploader\<close>, written by the refresh loop). Both cells live in the
  shared state, with the trace of the events; every operation takes it and returns it.
\<close>

record shared =
  requestIDCounter :: int64
  uploaderAtomic :: stageUploaderResult
  trace :: "event list"

record SnowflakeServiceClient =
  clientPrefix_ssc :: string
  deploymentID :: int64
  options :: ClientOptions

record ChannelOptions =
  ID :: int16
  Name :: string
  DatabaseName :: string
  SchemaName :: string
  TableName :: string

record encryptionInfo =
  encryptionKeyID :: int64
  encryptionKey :: string

text \<open>The channel embeds its options. The schema and the transformers are fixed when the
  channel is opened and are part of the encoder (\<open>constructRowGroup\<close>, \<open>writeParquetFile\<close>
  below).\<close>

record SnowflakeIngestionChannel = ChannelOptions +
  role :: string
  clientPrefix :: string
  version :: string
  encryptionInfo :: encryptionInfo
  clientSequencer :: int64
  rowSequencer :: int64
  fileMetadata :: "string \<rightharpoonup> string"
  buffer :: bytes

record InsertStats =
  BuildTime :: int
  UploadTime :: int
  CompressedOutputSize :: int

record parquetMetadata =
  NumRows :: int64

type_synonym MessageBatch = "bytes list"
type_synonym rowGroup = "string list list"

section \<open>Collaborators\<close>

text \<open>
  The encoder, the crypto codec, the REST transport and the stage are declared outside the
  files at hand, or outside the repository; they are parameters. The pure ones are
  functions of their arguments. \<open>writeParquetFile\<close> returns what it wrote to the buffer
  and its error. The answers of the outside world are functions too: \<open>time_Now k\<close> is the
  \<open>k\<close>-th reading of the clock in a call (nanoseconds), \<open>rand_draw\<close> decides the random
  number of the call, \<open>upload u i\<close> and \<open>channelStatus i\<close> answer the \<open>i\<close>-th attempt of
  a retried call, \<open>configureClient k\<close> answers the \<open>k\<close>-th configure call. \<open>commitDelays\<close>
  are the delays that the exponential policy of \<open>WaitUntilCommitted\<close> (1 ms, times 10, at
  most 1 s, jittered) grants before its 10 minutes are over or the context is done, and
  \<open>ctx_Err\<close> is the context's error at that moment.
\<close>

record env =
  NewRestClient :: "ClientOptions \<Rightarrow> error option"
  configureClient :: "nat \<Rightarrow> string \<Rightarrow> error + clientConfigureResponse"
  newUploader :: "string \<Rightarrow> uploader option \<times> error option"
  openChannel :: "openChannelRequest \<Rightarrow> error + openChannelResponse"
  dropChannel :: "dropChannelRequest \<Rightarrow> error + dropChannelResponse"
  channelStatus :: "nat \<Rightarrow> batchChannelStatusRequest \<Rightarrow> error + batchChannelStatusResponse"
  registerBlob :: "registerBlobRequest \<Rightarrow> error + registerBlobResponse"
  upload :: "uploader \<Rightarrow> nat \<Rightarrow> string \<Rightarrow> bytes \<Rightarrow> bytes \<Rightarrow> error option"
  constructParquetSchema :: "string list \<Rightarrow> error + (string \<rightharpoonup> string)"
  constructRowGroup :: "MessageBatch \<Rightarrow> error + rowGroup"
  computeColumnEpInfo :: "MessageBatch \<Rightarrow> string list"
  writeParquetFile :: "string \<Rightarrow> rowGroup \<Rightarrow> (string \<rightharpoonup> string) \<Rightarrow> bytes \<times> error option"
  readParquetMetadata :: "bytes \<Rightarrow> error + parquetMetadata"
  totalUncompressedSize :: "parquetMetadata \<Rightarrow> int32"
  padBuffer :: "bytes \<Rightarrow> nat \<Rightarrow> bytes"
  encrypt :: "bytes \<Rightarrow> string \<Rightarrow> string \<Rightarrow> int \<Rightarrow> error + bytes"
  md5_Sum :: "bytes \<Rightarrow> bytes"
  md5Hash :: "bytes \<Rightarrow> string"
  hex_EncodeToString :: "bytes \<Rightarrow> string"
  rand_draw :: nat
  time_Now :: "nat \<Rightarrow> int"
  commitDelays :: "nat list"
  ctx_Err :: "error option"

definition aes_BlockSize :: nat where
  "aes_BlockSize = 16"

text \<open>\<open>Time.UnixMilli\<close> and \<open>Time.Sub\<close> on instants counted in nanoseconds; \<open>Sub\<close> stops at
  the least and the greatest \<open>Duration\<close>.\<close>

definition UnixMilli :: "int \<Rightarrow> int64" where
  "UnixMilli t = word_of_int (t div 1000000)"

definition time_Sub :: "int \<Rightarrow> int \<Rightarrow> int" where
  "time_Sub t u = max (- (2 ^ 63)) (min (2 ^ 63 - 1) (t - u))"

text \<open>Modelled from the spec: \<open>generateBlobPath\<close> is declared in another file of the
  package. The spec says that the path combines the thread identifier (channel ID in the
  high bits, random value below) with the per-call counter; here they follow the client
  prefix, in decimal, separated by underscores, before the extension of the file.\<close>

definition generateBlobPath :: "string \<Rightarrow> int64 \<Rightarrow> int64 \<Rightarrow> string" where
  "generateBlobPath prefix threadID counter =
     prefix @ ''_'' @ show_int (sint threadID) @ ''_'' @ show_int (sint counter) @ ''.bdec''"

section \<open>Operations of the client\<close>

text \<open>\<open>nextRequestID\<close>, of the client and of the channel alike: add 1 to the shared
  counter and format the new value after the prefix.\<close>

definition nextRequestID :: "string \<Rightarrow> shared \<Rightarrow> string \<times> shared" where
  "nextRequestID prefix sh =
     (let rid = requestIDCounter sh + 1
      in (sprintf_s_d prefix rid, sh\<lparr>requestIDCounter := rid\<rparr>))"

definition emit :: "event \<Rightarrow> shared \<Rightarrow> shared" where
  "emit ev sh = sh\<lparr>trace := trace sh @ [ev]\<rparr>"

text \<open>The body of the refresh loop, run on every tick: the \<open>k\<close>-th configure call and the
  store into the atomic cell.\<close>

definition uploadRefreshLoop :: "env \<Rightarrow> ClientOptions \<Rightarrow> nat \<Rightarrow> shared \<Rightarrow> shared" where
  "uploadRefreshLoop env opts k sh =
     (let sh1 = emit (ConfigureCall (Role opts)) sh
      in case configureClient env k (Role opts) of
           Inl e \<Rightarrow> sh1\<lparr>uploaderAtomic := \<lparr>uploader = None, err = Some e\<rparr>\<rparr>
         | Inr resp \<Rightarrow>
             (case newUploader env (StageLocation_cc resp) of
                (u, e) \<Rightarrow> sh1\<lparr>uploaderAtomic := \<lparr>uploader = u, err = e\<rparr>\<rparr>))"

definition NewSnowflakeServiceClient ::
    "env \<Rightarrow> ClientOptions \<Rightarrow> error + (SnowflakeServiceClient \<times> shared)" where
  "NewSnowflakeServiceClient env opts =
     (case NewRestClient env opts of
        Some e \<Rightarrow> Inl e
      | None \<Rightarrow>
          (case configureClient env 0 (Role opts) of
             Inl e \<Rightarrow> Inl e
           | Inr resp \<Rightarrow>
               if StatusCode_cc resp \<noteq> responseSuccess
               then Inl (InitClientStatus (StatusCode_cc resp) (Message_cc resp))
               else (case newUploader env (StageLocation_cc resp) of
                       (u, Some e) \<Rightarrow> Inl (InitStageUploader e)
                     | (u, None) \<Rightarrow>
                         Inr (\<lparr>clientPrefix_ssc = sprintf_s_d (Prefix_cc resp) (DeploymentID_cc resp),
                               deploymentID = DeploymentID_cc resp,
                               options = opts\<rparr>,
                              \<lparr>requestIDCounter = 0,
                               uploaderAtomic = \<lparr>uploader = u, err = None\<rparr>,
                               trace = [ConfigureCall (Role opts)]\<rparr>))))"

definition OpenChannel :: "env \<Rightarrow> SnowflakeServiceClient \<Rightarrow> ChannelOptions \<Rightarrow> shared
    \<Rightarrow> (error + SnowflakeIngestionChannel) \<times> shared" where
  "OpenChannel env c opts sh =
     (let (rid, sh1) = nextRequestID (clientPrefix_ssc c) sh;
              req = \<lparr>RequestID_oc = rid,
                     Role_oc = Role (options c),
                     Channel_oc = Name opts,
                     Database_oc = DatabaseName opts,
                     Schema_oc = SchemaName opts,
                     Table_oc = TableName opts,
                     WriteMode_oc = ''CLOUD_STORAGE''\<rparr>;
              sh2 = emit (OpenChannelCall req) sh1
          in case openChannel env req of
               Inl e \<Rightarrow> (Inl e, sh2)
             | Inr resp \<Rightarrow>
                 if StatusCode_ocr resp \<noteq> responseSuccess
                 then (Inl (OpenChannelStatus (Name opts) (StatusCode_ocr resp) (Message_ocr resp)), sh2)
                 else (case constructParquetSchema env (TableColumns_ocr resp) of
                         Inl e \<Rightarrow> (Inl e, sh2)
                       | Inr typeMetadata \<Rightarrow>
                           (Inr \<lparr>ID = ID opts,
                                 Name = Name opts,
                                 DatabaseName = DatabaseName opts,
                                 SchemaName = SchemaName opts,
                                 TableName = TableName opts,
                                 role = Role (options c),
                                 clientPrefix = clientPrefix_ssc c,
                                 version = ConnectVersion (options c),
                                 encryptionInfo =
                                   \<lparr>encryptionKeyID = EncryptionKeyID_ocr resp,
                                    encryptionKey = EncryptionKey_ocr resp\<rparr>,
                                 clientSequencer = ClientSequencer_ocr resp,
                                 rowSequencer = RowSequencer_ocr resp,
                                 fileMetadata = typeMetadata,
                                 buffer = []\<rparr>, sh2)))"

text \<open>The request of \<open>ChannelStatus\<close>: one channel, no client sequencer.\<close>

definition ChannelStatus_request :: "SnowflakeServiceClient \<Rightarrow> ChannelOptions
    \<Rightarrow> batchChannelStatusRequest" where
  "ChannelStatus_request c opts =
     \<lparr>Role_bcs = Role (options c),
      Channels_bcs = [\<lparr>Name_cs = Name opts,
                       Table_cs = TableName opts,
                       Database_cs = DatabaseName opts,
                       Schema_cs = SchemaName opts,
                       ClientSequencer_cs = None\<rparr>]\<rparr>"

text \<open>The last error of \<open>ChannelStatus\<close> prints the status code of the whole response, as
  the source does.\<close>

definition ChannelStatus :: "env \<Rightarrow> SnowflakeServiceClient \<Rightarrow> ChannelOptions \<Rightarrow> shared
    \<Rightarrow> (error + string) \<times> shared" where
  "ChannelStatus env c opts sh =
     (let req = ChannelStatus_request c opts;
          sh1 = emit (ChannelStatusCall req) sh
      in case channelStatus env 0 req of
           Inl e \<Rightarrow> (Inl e, sh1)
         | Inr resp \<Rightarrow>
             if StatusCode_bcsr resp \<noteq> responseSuccess
             then (Inl (StatusChannelStatus (Name opts) (StatusCode_bcsr resp) (Message_bcsr resp)), sh1)
             else (case Channels_bcsr resp of
                     [channel] \<Rightarrow>
                       if StatusCode_csr channel \<noteq> responseSuccess
                       then (Inl (StatusChannelEntry (Name opts) (StatusCode_bcsr resp)), sh1)
                       else (Inr (PersistedOffsetToken_csr channel), sh1)
                   | chs \<Rightarrow> (Inl (FetchChannelCount (Name opts) (length chs)), sh1)))"

definition DropChannel :: "env \<Rightarrow> SnowflakeServiceClient \<Rightarrow> ChannelOptions \<Rightarrow> shared
    \<Rightarrow> error option \<times> shared" where
  "DropChannel env c opts sh =
     (let (rid, sh1) = nextRequestID (clientPrefix_ssc c) sh;
              req = \<lparr>RequestID_dc = rid,
                     Role_dc = Role (options c),
                     Channel_dc = Name opts,
                     Table_dc = TableName opts,
                     Database_dc = DatabaseName opts,
                     Schema_dc = SchemaName opts\<rparr>;
              sh2 = emit (DropChannelCall req) sh1
          in case dropChannel env req of
               Inl e \<Rightarrow> (Some e, sh2)
             | Inr resp \<Rightarrow>
                 if StatusCode_dcr resp \<noteq> responseSuccess
                 then (Some (DropChannelStatus (Name opts) (StatusCode_dcr resp) (Message_dcr resp)), sh2)
                 else (None, sh2))"

section \<open>Operations of a channel\<close>

text \<open>The thread identifier and the path of the blob, as \<open>InsertRows\<close> computes them from
  the channel, the random draw and the shared counter before the call: the channel ID
  in the upper 16 bits, 48 random bits below, and the counter after its increment.\<close>

definition fakeThreadID :: "env \<Rightarrow> SnowflakeIngestionChannel \<Rightarrow> int64" where
  "fakeThreadID env c =
     push_bit 48 (scast (ID c) :: int64) OR word_of_nat (rand_N (2 ^ 48) (rand_draw env))"

definition blobPath :: "env \<Rightarrow> shared \<Rightarrow> SnowflakeIngestionChannel \<Rightarrow> string" where
  "blobPath env sh c =
     generateBlobPath (clientPrefix c) (fakeThreadID env c) (requestIDCounter sh + 1)"

text \<open>The request that \<open>InsertRows\<close> registers the blob with.\<close>

definition registerBlobRequestOf :: "env \<Rightarrow> SnowflakeIngestionChannel \<Rightarrow> MessageBatch
    \<Rightarrow> string \<Rightarrow> string \<Rightarrow> bytes \<Rightarrow> bytes \<Rightarrow> nat \<Rightarrow> parquetMetadata \<Rightarrow> int \<Rightarrow> int \<Rightarrow> int
    \<Rightarrow> registerBlobRequest" where
  "registerBlobRequestOf env c batch rid path encrypted fileMD5Hash unencryptedLen metadata
       startTime uploadStartTime uploadFinishTime =
     \<lparr>RequestID_rb = rid,
      Role_rb = role c,
      Blobs_rb =
        [\<lparr>Path_bm = path,
          MD5_bm = hex_EncodeToString env fileMD5Hash,
          BDECVersion_bm = 3,
          BlobStats_bm =
            \<lparr>FlushStartMs_bs = UnixMilli startTime,
             BuildDurationMs_bs = UnixMilli uploadStartTime - UnixMilli startTime,
             UploadDurationMs_bs = UnixMilli uploadFinishTime - UnixMilli uploadStartTime\<rparr>,
          Chunks_bm =
            [\<lparr>Database_ch = DatabaseName c,
              Schema_ch = SchemaName c,
              Table_ch = TableName c,
              ChunkStartOffset_ch = 0,
              ChunkLength_ch = word_of_nat unencryptedLen,
              ChunkLengthUncompressed_ch = totalUncompressedSize env metadata,
              ChunkMD5_ch = md5Hash env (take unencryptedLen encrypted),
              EncryptionKeyID_ch = encryptionKeyID (encryptionInfo c),
              FirstInsertTimeInMillis_ch = UnixMilli startTime,
              LastInsertTimeInMillis_ch = UnixMilli startTime,
              EPS_ch = \<lparr>Rows_ep = NumRows metadata, Columns_ep = computeColumnEpInfo env batch\<rparr>,
              Channels_ch =
                [\<lparr>Channel_cm = Name c,
                  ClientSequencer_cm = clientSequencer c,
                  RowSequencer_cm = rowSequencer c + 1,
                  StartOffsetToken_cm = None,
                  EndOffsetToken_cm = None,
                  OffsetToken_cm = None\<rparr>]\<rparr>]\<rparr>]\<rparr>"

text \<open>One attempt of the upload, and the sleep between two attempts.\<close>

definition uploadAttempt :: "env \<Rightarrow> uploader \<Rightarrow> string \<Rightarrow> bytes \<Rightarrow> bytes \<Rightarrow> nat \<Rightarrow> shared
    \<Rightarrow> error option \<times> shared" where
  "uploadAttempt env u path encrypted fileMD5Hash i sh =
     (upload env u i path encrypted fileMD5Hash, emit (UploadCall u path encrypted fileMD5Hash) sh)"

definition sleepShared :: "nat \<Rightarrow> shared \<Rightarrow> shared" where
  "sleepShared d sh = emit (Sleep d) sh"

text \<open>
  \<open>InsertRows\<close>, statement by statement, in three parts that follow the source from its
  end to its beginning: the checks of the response of \<open>registerBlob\<close> with the update of
  the sequencers (\<open>InsertRows_response\<close>), the upload and the registration
  (\<open>InsertRows_upload\<close>), and the function itself, which builds, pads and encrypts the
  file. The result is the pair that the Go function returns, with the shared state and
  the channel as the call leaves them.
\<close>

definition InsertRows_response :: "InsertStats \<Rightarrow> nat \<Rightarrow> int \<Rightarrow> int \<Rightarrow> int
    \<Rightarrow> registerBlobResponse \<Rightarrow> SnowflakeIngestionChannel
    \<Rightarrow> (InsertStats \<times> error option) \<times> SnowflakeIngestionChannel" where
  "InsertRows_response stats unencryptedLen startTime uploadStartTime uploadFinishTime resp c =
     (case Blobs_rbr resp of
        [status] \<Rightarrow>
          (case Chunks_brs status of
             [chunk] \<Rightarrow>
               (case Channels_chrs chunk of
                  [channel] \<Rightarrow>
                    if StatusCode_crs channel \<noteq> responseSuccess
                    then ((stats, Some (IngestStatus (StatusCode_crs channel)
                             (if Message_crs channel = [] then ''(no message)''
                              else Message_crs channel))), c)
                    else ((stats\<lparr>CompressedOutputSize := int unencryptedLen,
                                  BuildTime := time_Sub uploadStartTime startTime,
                                  UploadTime := time_Sub uploadFinishTime uploadStartTime\<rparr>,
                           None),
                          c\<lparr>rowSequencer := rowSequencer c + 1,
                            clientSequencer := ClientSequencer_crs channel\<rparr>)
                | chs \<Rightarrow> ((stats, Some (UnexpectedChannels (length chs))), c))
           | cks \<Rightarrow> ((stats, Some (UnexpectedChunks (length cks))), c))
      | bs \<Rightarrow> ((stats, Some (UnexpectedBlobs (length bs))), c))"

definition InsertRows_upload :: "env \<Rightarrow> MessageBatch \<Rightarrow> InsertStats \<Rightarrow> int \<Rightarrow> string \<Rightarrow> nat
    \<Rightarrow> parquetMetadata \<Rightarrow> bytes \<Rightarrow> shared \<Rightarrow> SnowflakeIngestionChannel
    \<Rightarrow> (InsertStats \<times> error option) \<times> shared \<times> SnowflakeIngestionChannel" where
  "InsertRows_upload env batch stats startTime path unencryptedLen metadata encrypted sh c =
     (let uploadStartTime = time_Now env 1;
          fileMD5Hash = md5_Sum env encrypted;
          uploaderResult = uploaderAtomic sh
      in case err uploaderResult of
           Some e \<Rightarrow> ((stats, Some (AcquireStageUploader e)), sh, c)
         | None \<Rightarrow>
             (case uploader uploaderResult of
                None \<Rightarrow> ((stats, Some (Panic ''nil uploader'')), sh, c)
              | Some u \<Rightarrow>
                  (case Retry (uploadAttempt env u path encrypted fileMD5Hash) sleepShared
                          (WithMaxRetries_Constant 1000 3) None 0 sh of
                     (Some e, sh2) \<Rightarrow> ((stats, Some e), sh2, c)
                   | (None, sh2) \<Rightarrow>
                       (let uploadFinishTime = time_Now env 2;
                            (rid, sh3) = nextRequestID (clientPrefix c) sh2
                        in if length encrypted < unencryptedLen
                           then ((stats, Some (Panic ''slice bounds out of range'')), sh3, c)
                           else
                             (let req = registerBlobRequestOf env c batch rid path encrypted
                                          fileMD5Hash unencryptedLen metadata
                                          startTime uploadStartTime uploadFinishTime;
                                  sh4 = emit (RegisterBlobCall req) sh3
                              in (case registerBlob env req of
                                    Inl e \<Rightarrow> ((stats, Some e), sh4, c)
                                  | Inr resp \<Rightarrow>
                                      (case InsertRows_response stats unencryptedLen startTime
                                              uploadStartTime uploadFinishTime resp c of
                                         (r, c') \<Rightarrow> (r, sh4, c'))))))))"

definition InsertRows :: "env \<Rightarrow> MessageBatch \<Rightarrow> shared \<Rightarrow> SnowflakeIngestionChannel
    \<Rightarrow> (InsertStats \<times> error option) \<times> shared \<times> SnowflakeIngestionChannel" where
  "InsertRows env batch sh c =
     (let stats = \<lparr>BuildTime = 0, UploadTime = 0, CompressedOutputSize = 0\<rparr>;
          startTime = time_Now env 0
      in case constructRowGroup env batch of
           Inl e \<Rightarrow> ((stats, Some e), sh, c)
         | Inr rows \<Rightarrow>
             (let path = blobPath env sh c;
                  sh1 = sh\<lparr>requestIDCounter := requestIDCounter sh + 1\<rparr>;
                  c1 = c\<lparr>fileMetadata := (fileMetadata c)(''primaryFileId'' \<mapsto> path_Base path)\<rparr>
              in (case writeParquetFile env (version c1) rows (fileMetadata c1) of
                    (written, Some e) \<Rightarrow> ((stats, Some e), sh1, c1\<lparr>buffer := written\<rparr>)
                  | (unencrypted, None) \<Rightarrow>
                      (let c2 = c1\<lparr>buffer := unencrypted\<rparr>
                       in (case readParquetMetadata env unencrypted of
                             Inl e \<Rightarrow> ((stats, Some (ParseParquetMetadata e)), sh1, c2)
                           | Inr metadata \<Rightarrow>
                               (let unencryptedLen = length unencrypted;
                                    padded = padBuffer env unencrypted aes_BlockSize
                                in (case encrypt env padded (encryptionKey (encryptionInfo c2)) path 0 of
                                      Inl e \<Rightarrow> ((stats, Some e), sh1, c2)
                                    | Inr encrypted \<Rightarrow>
                                        InsertRows_upload env batch stats startTime path
                                          unencryptedLen metadata encrypted sh1 c2)))))))"

text \<open>The request of every poll of \<open>WaitUntilCommitted\<close>: the channel with its local
  client sequencer.\<close>

definition WaitUntilCommitted_request :: "SnowflakeIngestionChannel \<Rightarrow> batchChannelStatusRequest" where
  "WaitUntilCommitted_request c =
     \<lparr>Role_bcs = role c,
      Channels_bcs = [\<lparr>Name_cs = Name c,
                       Table_cs = TableName c,
                       Database_cs = DatabaseName c,
                       Schema_cs = SchemaName c,
                       ClientSequencer_cs = Some (clientSequencer c)\<rparr>]\<rparr>"

text \<open>One poll of \<open>WaitUntilCommitted\<close>: the closure handed to \<open>backoff.Retry\<close>. Its state
  is the variable \<open>polls\<close> with the shared state. The permanent error carries the message
  of the count check, as in the source.\<close>

definition pollOnce :: "env \<Rightarrow> SnowflakeIngestionChannel \<Rightarrow> nat \<Rightarrow> nat \<times> shared
    \<Rightarrow> error option \<times> nat \<times> shared" where
  "pollOnce env c i st =
     (let polls = fst st + 1;
          req = WaitUntilCommitted_request c;
          sh1 = emit (ChannelStatusCall req) (snd st)
      in case channelStatus env i req of
           Inl e \<Rightarrow> (Some e, polls, sh1)
         | Inr resp \<Rightarrow>
             if StatusCode_bcsr resp \<noteq> responseSuccess
             then (Some (FetchStatus (StatusCode_bcsr resp)
                      (if Message_bcsr resp = [] then ''(no message)'' else Message_bcsr resp)), polls, sh1)
             else (case Channels_bcsr resp of
                     [status] \<Rightarrow>
                       if PersistedClientSequencer_csr status \<noteq> clientSequencer c
                       then (Some (Permanent (UnexpectedStatusChannels (length (Channels_bcsr resp)))),
                             polls, sh1)
                       else if sint (PersistedRowSequencer_csr status) < sint (rowSequencer c)
                       then (Some (RowSequencerNotCommitted (sint (PersistedRowSequencer_csr status))
                                (sint (rowSequencer c))), polls, sh1)
                       else (None, polls, sh1)
                   | chs \<Rightarrow> (Some (UnexpectedStatusChannels (length chs)), polls, sh1)))"

definition sleepPoll :: "nat \<Rightarrow> nat \<times> shared \<Rightarrow> nat \<times> shared" where
  "sleepPoll d st = (fst st, emit (Sleep d) (snd st))"

definition WaitUntilCommitted :: "env \<Rightarrow> shared \<Rightarrow> SnowflakeIngestionChannel
    \<Rightarrow> (nat \<times> error option) \<times> shared" where
  "WaitUntilCommitted env sh c =
     (case Retry (pollOnce env c) sleepPoll (commitDelays env) (ctx_Err env) 0 (0, sh) of
        (e, polls, sh') \<Rightarrow> ((polls, e), sh'))"

text \<open>The parts of the result of \<open>InsertRows\<close>, and the events that the call adds to the
  trace.\<close>

definition InsertRows_stats :: "env \<Rightarrow> MessageBatch \<Rightarrow> shared \<Rightarrow> SnowflakeIngestionChannel \<Rightarrow> InsertStats" where
  "InsertRows_stats env batch sh c = fst (fst (InsertRows env batch sh c))"

definition InsertRows_err :: "env \<Rightarrow> MessageBatch \<Rightarrow> shared \<Rightarrow> SnowflakeIngestionChannel \<Rightarrow> error option" where
  "InsertRows_err env batch sh c = snd (fst (InsertRows env batch sh c))"

definition InsertRows_shared :: "env \<Rightarrow> MessageBatch \<Rightarrow> shared \<Rightarrow> SnowflakeIngestionChannel \<Rightarrow> shared" where
  "InsertRows_shared env batch sh c = fst (snd (InsertRows env batch sh c))"

definition InsertRows_channel :: "env \<Rightarrow> MessageBatch \<Rightarrow> shared \<Rightarrow> SnowflakeIngestionChannel
    \<Rightarrow> SnowflakeIngestionChannel" where
  "InsertRows_channel env batch sh c = snd (snd (InsertRows env batch sh c))"

definition InsertRows_events :: "env \<Rightarrow> MessageBatch \<Rightarrow> shared \<Rightarrow> SnowflakeIngestionChannel \<Rightarrow> event list" where
  "InsertRows_events env batch sh c =
     drop (length (trace sh)) (trace (InsertRows_shared env batch sh c))"

fun isUploadCall :: "event \<Rightarrow> bool" where
  "isUploadCall (UploadCall u p b h) = True"
| "isUploadCall _ = False"

fun isRegisterBlobCall :: "event \<Rightarrow> bool" where
  "isRegisterBlobCall (RegisterBlobCall r) = True"
| "isRegisterBlobCall _ = False"

fun isChannelStatusCall :: "event \<Rightarrow> bool" where
  "isChannelStatusCall (ChannelStatusCall r) = True"
| "isChannelStatusCall _ = False"

text \<open>
  The first half of \<open>InsertRows\<close> on its own, to state what the second half works on: the
  serialized file, its metadata and the ciphertext, when the transformation, the
  encoding, the parsing of the metadata and the encryption all succeed, in the order of
  the source. \<open>InsertRows_c2\<close> is the channel at that point (the file identifier in the
  metadata, the file in the buffer) and \<open>InsertRows_request\<close> the request of the
  registration, whose identifier is the second value that the call draws from the counter.
\<close>

definition InsertRows_built :: "env \<Rightarrow> MessageBatch \<Rightarrow> shared \<Rightarrow> SnowflakeIngestionChannel
    \<Rightarrow> (bytes \<times> parquetMetadata \<times> bytes) option" where
  "InsertRows_built env batch sh c =
     (case constructRowGroup env batch of
        Inl e \<Rightarrow> None
      | Inr rows \<Rightarrow>
          (case writeParquetFile env (version c) rows
                  ((fileMetadata c)(''primaryFileId'' \<mapsto> path_Base (blobPath env sh c))) of
             (written, Some e) \<Rightarrow> None
           | (unencrypted, None) \<Rightarrow>
               (case readParquetMetadata env unencrypted of
                  Inl e \<Rightarrow> None
                | Inr metadata \<Rightarrow>
                    (case encrypt env (padBuffer env unencrypted aes_BlockSize)
                            (encryptionKey (encryptionInfo c)) (blobPath env sh c) 0 of
                       Inl e \<Rightarrow> None
                     | Inr encrypted \<Rightarrow> Some (unencrypted, metadata, encrypted)))))"

definition InsertRows_c2 :: "env \<Rightarrow> shared \<Rightarrow> SnowflakeIngestionChannel \<Rightarrow> bytes
    \<Rightarrow> SnowflakeIngestionChannel" where
  "InsertRows_c2 env sh c unencrypted =
     c\<lparr>fileMetadata := (fileMetadata c)(''primaryFileId'' \<mapsto> path_Base (blobPath env sh c)),
       buffer := unencrypted\<rparr>"

definition InsertRows_request :: "env \<Rightarrow> MessageBatch \<Rightarrow> shared \<Rightarrow> SnowflakeIngestionChannel
    \<Rightarrow> bytes \<Rightarrow> parquetMetadata \<Rightarrow> bytes \<Rightarrow> registerBlobRequest" where
  "InsertRows_request env batch sh c unencrypted metadata encrypted =
     registerBlobRequestOf env (InsertRows_c2 env sh c unencrypted) batch
       (sprintf_s_d (clientPrefix c) (requestIDCounter sh + 2)) (blobPath env sh c) encrypted
       (md5_Sum env encrypted) (length unencrypted) metadata
       (time_Now env 0) (time_Now env 1) (time_Now env 2)"

definition InsertStats_zero :: InsertStats where
  "InsertStats_zero = \<lparr>BuildTime = 0, UploadTime = 0, CompressedOutputSize = 0\<rparr>"

text \<open>A response of \<open>registerBlob\<close> of the wrong shape: not exactly one blob, or not exactly
  one chunk in the blob, or not exactly one channel in the chunk.\<close>

definition wrongShape :: "registerBlobResponse \<Rightarrow> bool" where
  "wrongShape resp =
     (case Blobs_rbr resp of
        [status] \<Rightarrow>
          (case Chunks_brs status of
             [chunk] \<Rightarrow> length (Channels_chrs chunk) \<noteq> 1
           | cks \<Rightarrow> True)
      | bs \<Rightarrow> True)"

text \<open>The events of an upload whose first attempts fail and are retried after the delays
  \<open>ds\<close>: an attempt and a sleep for every delay, and the last attempt.\<close>

fun uploadEvents :: "uploader \<Rightarrow> string \<Rightarrow> bytes \<Rightarrow> bytes \<Rightarrow> nat list \<Rightarrow> event list" where
  "uploadEvents u p b h [] = [UploadCall u p b h]"
| "uploadEvents u p b h (d # ds) = UploadCall u p b h # Sleep d # uploadEvents u p b h ds"

text \<open>The parts of the result of \<open>WaitUntilCommitted\<close>, and the events that the call adds
  to the trace.\<close>

definition WaitUntilCommitted_polls :: "env \<Rightarrow> shared \<Rightarrow> SnowflakeIngestionChannel \<Rightarrow> nat" where
  "WaitUntilCommitted_polls env sh c = fst (fst (WaitUntilCommitted env sh c))"

definition WaitUntilCommitted_err :: "env \<Rightarrow> shared \<Rightarrow> SnowflakeIngestionChannel \<Rightarrow> error option" where
  "WaitUntilCommitted_err env sh c = snd (fst (WaitUntilCommitted env sh c))"

definition WaitUntilCommitted_events :: "env \<Rightarrow> shared \<Rightarrow> SnowflakeIngestionChannel \<Rightarrow> event list" where
  "WaitUntilCommitted_events env sh c =
     drop (length (trace sh)) (trace (snd (WaitUntilCommitted env sh c)))"

text \<open>
  What the \<open>i\<close>-th poll of a channel observes, in the words of the specification. The
  poll observes the commit when the transport answers, the status of the response is
  success, the response has exactly one channel entry, the persisted client sequencer of
  the entry is the local one and its persisted row sequencer is not behind the local
  one. It observes a diverged client sequencer when the response is such a single entry
  and the persisted client sequencer differs from the local one.
\<close>

definition observesCommitted :: "env \<Rightarrow> SnowflakeIngestionChannel \<Rightarrow> nat \<Rightarrow> bool" where
  "observesCommitted env c i =
     (case channelStatus env i (WaitUntilCommitted_request c) of
        Inl e \<Rightarrow> False
      | Inr resp \<Rightarrow>
          StatusCode_bcsr resp = responseSuccess \<and>
          (case Channels_bcsr resp of
             [status] \<Rightarrow>
               PersistedClientSequencer_csr status = clientSequencer c \<and>
               sint (rowSequencer c) \<le> sint (PersistedRowSequencer_csr status)
           | chs \<Rightarrow> False))"

definition observesDiverged :: "env \<Rightarrow> SnowflakeIngestionChannel \<Rightarrow> nat \<Rightarrow> bool" where
  "observesDiverged env c i =
     (case channelStatus env i (WaitUntilCommitted_request c) of
        Inl e \<Rightarrow> False
      | Inr resp \<Rightarrow>
          StatusCode_bcsr resp = responseSuccess \<and>
          (case Channels_bcsr resp of
             [status] \<Rightarrow> PersistedClientSequencer_csr status \<noteq> clientSequencer c
           | chs \<Rightarrow> False))"

section \<open>A session of one client\<close>

text \<open>
  The request identifier that an event carries: the \<open>RequestID\<close> of an open, a drop and a
  registration. The literals of the status requests (in \<open>ChannelStatus\<close> and in
  \<open>WaitUntilCommitted\<close>) and of the configure request set no identifier.
\<close>

fun requestID_of :: "event \<Rightarrow> string option" where
  "requestID_of (OpenChannelCall r) = Some (RequestID_oc r)"
| "requestID_of (DropChannelCall r) = Some (RequestID_dc r)"
| "requestID_of (RegisterBlobCall r) = Some (RequestID_rb r)"
| "requestID_of (ChannelStatusCall r) = None"
| "requestID_of (ConfigureCall r) = None"
| "requestID_of (UploadCall u p b h) = None"
| "requestID_of (Sleep d) = None"

definition requestIDs :: "event list \<Rightarrow> string list" where
  "requestIDs evs = List.map_filter requestID_of evs"

text \<open>
  A session: the shared state of the client, the channels opened from it, and the paths
  of the blobs that the calls of \<open>InsertRows\<close> have generated so far. The calls of a session
  run one after the other, each with the answers of the outside world for it; \<open>InsertRows\<close>
  and \<open>WaitUntilCommitted\<close> name their channel by its position among the opened ones (a
  position without a channel is no call). A tick of the refresh loop is a call as well.
\<close>

record session =
  shared_of :: shared
  channels :: "SnowflakeIngestionChannel list"
  paths :: "string list"

datatype call =
    CallOpenChannel env ChannelOptions
  | CallDropChannel env ChannelOptions
  | CallChannelStatus env ChannelOptions
  | CallInsertRows env MessageBatch nat
  | CallWaitUntilCommitted env nat
  | CallRefresh env nat

fun step :: "SnowflakeServiceClient \<Rightarrow> session \<Rightarrow> call \<Rightarrow> session" where
  "step cl s (CallOpenChannel env opts) =
     (case OpenChannel env cl opts (shared_of s) of
        (Inl e, sh') \<Rightarrow> s\<lparr>shared_of := sh'\<rparr>
      | (Inr ch, sh') \<Rightarrow> s\<lparr>shared_of := sh', channels := channels s @ [ch]\<rparr>)"
| "step cl s (CallDropChannel env opts) =
     s\<lparr>shared_of := snd (DropChannel env cl opts (shared_of s))\<rparr>"
| "step cl s (CallChannelStatus env opts) =
     s\<lparr>shared_of := snd (ChannelStatus env cl opts (shared_of s))\<rparr>"
| "step cl s (CallInsertRows env batch n) =
     (if n < length (channels s)
      then s\<lparr>shared_of := InsertRows_shared env batch (shared_of s) (channels s ! n),
              channels := (channels s)[n := InsertRows_channel env batch (shared_of s) (channels s ! n)],
              paths := paths s @
                (case constructRowGroup env batch of
                   Inl e \<Rightarrow> []
                 | Inr rows \<Rightarrow> [blobPath env (shared_of s) (channels s ! n)])\<rparr>
      else s)"
| "step cl s (CallWaitUntilCommitted env n) =
     (if n < length (channels s)
      then s\<lparr>shared_of := snd (WaitUntilCommitted env (shared_of s) (channels s ! n))\<rparr>
      else s)"
| "step cl s (CallRefresh env k) =
     s\<lparr>shared_of := uploadRefreshLoop env (options cl) k (shared_of s)\<rparr>"

definition run :: "SnowflakeServiceClient \<Rightarrow> session \<Rightarrow> call list \<Rightarrow> session" where
  "run cl s calls = foldl (step cl) s calls"

text \<open>The session that \<open>NewSnowflakeServiceClient\<close> starts.\<close>

definition session_of :: "shared \<Rightarrow> session" where
  "session_of sh = \<lparr>shared_of = sh, channels = [], paths = []\<rparr>"

section \<open>A concrete environment\<close>

text \<open>A remote side that accepts everything, a channel and a shared state, to run the
  operations on; variations of it are record updates.\<close>

definition env_ok :: env where
  "env_ok =
     \<lparr>NewRestClient = (\<lambda>opts. None),
      configureClient = (\<lambda>k r. Inr \<lparr>StatusCode_cc = 0, Message_cc = [], StageLocation_cc = ''stage'',
                                       Prefix_cc = ''p'', DeploymentID_cc = 1\<rparr>),
      newUploader = (\<lambda>loc. (Some (Uploader loc), None)),
      openChannel = (\<lambda>req. Inr \<lparr>StatusCode_ocr = 0, Message_ocr = [], TableColumns_ocr = [''A'', ''B''],
                                   EncryptionKeyID_ocr = 1, EncryptionKey_ocr = ''key'',
                                   ClientSequencer_ocr = 0, RowSequencer_ocr = 0\<rparr>),
      dropChannel = (\<lambda>req. Inr \<lparr>StatusCode_dcr = 0, Message_dcr = []\<rparr>),
      channelStatus = (\<lambda>i req. Inr \<lparr>StatusCode_bcsr = 0, Message_bcsr = [],
                                       Channels_bcsr = [\<lparr>StatusCode_csr = 0,
                                                         PersistedOffsetToken_csr = ''tok'',
                                                         PersistedClientSequencer_csr = 0,
                                                         PersistedRowSequencer_csr = 1\<rparr>]\<rparr>),
      registerBlob = (\<lambda>req. Inr \<lparr>Blobs_rbr = [\<lparr>Chunks_brs = [\<lparr>Channels_chrs =
                                    [\<lparr>StatusCode_crs = 0, Message_crs = [],
                                      ClientSequencer_crs = 7\<rparr>]\<rparr>]\<rparr>]\<rparr>),
      upload = (\<lambda>u i p b h. None),
      constructParquetSchema = (\<lambda>cols. Inr Map.empty),
      constructRowGroup = (\<lambda>b. Inr []),
      computeColumnEpInfo = (\<lambda>b. []),
      writeParquetFile = (\<lambda>v rows m. ([80, 65, 82], None)),
      readParquetMetadata = (\<lambda>b. Inr \<lparr>NumRows = 3\<rparr>),
      totalUncompressedSize = (\<lambda>m. 3),
      padBuffer = (\<lambda>b n. b @ replicate (n - length b mod n) 0),
      encrypt = (\<lambda>b k p d. Inr (rev b)),
      md5_Sum = (\<lambda>b. [0]),
      md5Hash = (\<lambda>b. ''d''),
      hex_EncodeToString = (\<lambda>b. ''00''),
      rand_draw = 5,
      time_Now = (\<lambda>k. int k * 1000000),
      commitDelays = [1, 10],
      ctx_Err = None\<rparr>"

definition shared0 :: shared where
  "shared0 = \<lparr>requestIDCounter = 0,
              uploaderAtomic = \<lparr>uploader = Some (Uploader ''stage''), err = None\<rparr>,
              trace = []\<rparr>"

definition channel0 :: SnowflakeIngestionChannel where
  "channel0 =
     \<lparr>ID = 1, Name = ''ch'', DatabaseName = ''db'', SchemaName = ''sc'', TableName = ''t'',
      role = ''r'', clientPrefix = ''p_1'', version = ''v'',
      encryptionInfo = \<lparr>encryptionKeyID = 1, encryptionKey = ''key''\<rparr>,
      clientSequencer = 0, rowSequencer = 0, fileMetadata = Map.empty, buffer = []\<rparr>"

definition client0 :: SnowflakeServiceClient where
  "client0 = \<lparr>clientPrefix_ssc = ''p_1'', deploymentID = 1,
              options = \<lparr>Account = ''a'', User = ''u'', Role = ''r'', ConnectVersion = ''v'',
                         Application = ''app''\<rparr>\<rparr>"

definition options0 :: ChannelOptions where
  "options0 = \<lparr>ID = 1, Name = ''ch'', DatabaseName = ''db'', SchemaName = ''sc'', TableName = ''t''\<rparr>"

text \<open>A remote side that answers the registration with a channel status other than
  success.\<close>

definition env_reject :: env where
  "env_reject = env_ok\<lparr>registerBlob := (\<lambda>req. Inr \<lparr>Blobs_rbr = [\<lparr>Chunks_brs = [\<lparr>Channels_chrs =
                    [\<lparr>StatusCode_crs = 5, Message_crs = [], ClientSequencer_crs = 9\<rparr>]\<rparr>]\<rparr>]\<rparr>)\<rparr>"

text \<open>A response of \<open>registerBlob\<close> without chunks in its blob.\<close>

definition env_noChunks :: env where
  "env_noChunks = env_ok\<lparr>registerBlob := (\<lambda>req. Inr \<lparr>Blobs_rbr = [\<lparr>Chunks_brs = []\<rparr>]\<rparr>)\<rparr>"

text \<open>A stage whose first three attempts of an upload fail, and a stage that always
  fails.\<close>

definition env_flaky :: env where
  "env_flaky = env_ok\<lparr>upload := (\<lambda>u i p b h. if i < 3 then Some (Collaborator ''timeout'') else None)\<rparr>"

definition env_down :: env where
  "env_down = env_ok\<lparr>upload := (\<lambda>u i p b h. Some (Collaborator ''timeout''))\<rparr>"

text \<open>A control plane that rejects the configure call of a refresh tick, and the shared
  state after such a tick.\<close>

definition env_cfgfail :: env where
  "env_cfgfail = env_ok\<lparr>configureClient := (\<lambda>k r. Inl (Collaborator ''unauthorized''))\<rparr>"

definition shared_stale :: shared where
  "shared_stale = uploadRefreshLoop env_cfgfail (options client0) 1 shared0"

text \<open>An encoder whose file has \<open>2^31\<close> bytes, and the chunk lengths that the
  registrations of a trace report.\<close>

definition env_big :: env where
  "env_big = env_ok\<lparr>writeParquetFile := (\<lambda>v rows m. (replicate (2 ^ 31) 0, None))\<rparr>"

fun reportedChunkLengths :: "event list \<Rightarrow> int32 list" where
  "reportedChunkLengths [] = []"
| "reportedChunkLengths (RegisterBlobCall req # evs) =
     map ChunkLength_ch (concat (map Chunks_bm (Blobs_rb req))) @ reportedChunkLengths evs"
| "reportedChunkLengths (ev # evs) = reportedChunkLengths evs"

text \<open>A control plane whose status response has no channel entry.\<close>

definition env_noEntries :: env where
  "env_noEntries = env_ok\<lparr>channelStatus := (\<lambda>i req. Inr \<lparr>StatusCode_bcsr = 0, Message_bcsr = [],
                                                            Channels_bcsr = []\<rparr>)\<rparr>"

text \<open>A channel that was reopened elsewhere: the persisted client sequencer is 7, the
  persisted row sequencer 5. And a commit that the second poll sees, for a channel with
  one insert.\<close>

definition env_reopened :: env where
  "env_reopened = env_ok\<lparr>channelStatus := (\<lambda>i req. Inr \<lparr>StatusCode_bcsr = 0, Message_bcsr = [],
       Channels_bcsr = [\<lparr>StatusCode_csr = 0, PersistedOffsetToken_csr = ''tok'',
                         PersistedClientSequencer_csr = 7, PersistedRowSequencer_csr = 5\<rparr>]\<rparr>)\<rparr>"

definition env_late :: env where
  "env_late = env_ok\<lparr>channelStatus := (\<lambda>i req. Inr \<lparr>StatusCode_bcsr = 0, Message_bcsr = [],
       Channels_bcsr = [\<lparr>StatusCode_csr = 0, PersistedOffsetToken_csr = ''tok'',
                         PersistedClientSequencer_csr = 0,
                         PersistedRowSequencer_csr = (if i = 0 then 0 else 1)\<rparr>]\<rparr>)\<rparr>"

definition channel1 :: SnowflakeIngestionChannel where
  "channel1 = channel0\<lparr>rowSequencer := 1\<rparr>"

text \<open>A session: two channels are opened, each inserts, the first inserts again, its
  status is asked for, it waits for the commit and is dropped.\<close>

definition calls0 :: "call list" where
  "calls0 = [CallOpenChannel env_ok options0,
             CallOpenChannel env_ok (options0\<lparr>ID := 2, Name := ''ch2''\<rparr>),
             CallInsertRows env_ok [] 0,
             CallInsertRows env_ok [] 1,
             CallInsertRows env_ok [] 0,
             CallChannelStatus env_ok options0,
             CallWaitUntilCommitted env_ok 0,
             CallDropChannel env_ok options0]"

section \<open>Decimal formatting loses nothing\<close>

lemma show_nat_small: "n < 10 \<Longrightarrow> show_nat n = [digit n]"
  by (subst show_nat.simps) simp

lemma show_nat_big: "\<not> n < 10 \<Longrightarrow> show_nat n = show_nat (n div 10) @ [digit (n mod 10)]"
  by (subst show_nat.simps) simp

lemma digit_cases:
  "d < 10 \<Longrightarrow> d = 0 \<or> d = 1 \<or> d = 2 \<or> d = 3 \<or> d = 4 \<or> d = 5 \<or> d = 6 \<or> d = 7 \<or> d = 8 \<or> d = (9::nat)"
  by arith

lemma digit_val_digit: "d < 10 \<Longrightarrow> digit_val (digit d) = d"
  using digit_cases [of d] by (auto simp: digit_def digit_val_def)

lemma digit_in: "digit d \<in> set ''0123456789''"
proof -
  have "d mod 10 < 10" by simp
  from digit_cases [OF this] show ?thesis by (auto simp: digit_def)
qed

lemma read_nat_snoc: "read_nat (s @ [c]) = 10 * read_nat s + digit_val c"
  by (simp add: read_nat_def)

lemma read_show_nat: "read_nat (show_nat n) = n"
proof (induction n rule: show_nat.induct)
  case (1 n)
  show ?case
  proof (cases "n < 10")
    case True
    then show ?thesis by (simp add: show_nat_small read_nat_def digit_val_digit)
  next
    case False
    then have "read_nat (show_nat n) = 10 * read_nat (show_nat (n div 10)) + digit_val (digit (n mod 10))"
      by (simp add: show_nat_big read_nat_snoc)
    with False 1 show ?thesis by (simp add: digit_val_digit)
  qed
qed

lemma show_nat_inj: "show_nat a = show_nat b \<Longrightarrow> a = b"
  by (metis read_show_nat)

lemma show_nat_chars: "set (show_nat n) \<subseteq> set ''0123456789''"
proof (induction n rule: show_nat.induct)
  case (1 n)
  show ?case
  proof (cases "n < 10")
    case True
    then show ?thesis using digit_in [of n] by (simp add: show_nat_small)
  next
    case False
    then have "set (show_nat n) = set (show_nat (n div 10)) \<union> {digit (n mod 10)}"
      by (simp add: show_nat_big)
    with False 1 digit_in [of "n mod 10"] show ?thesis by auto
  qed
qed

lemma show_nat_nonempty: "show_nat n \<noteq> []"
  by (cases "n < 10") (simp_all add: show_nat_small show_nat_big)

lemma show_nat_no_minus: "CHR ''-'' \<notin> set (show_nat n)"
  using show_nat_chars [of n] by auto

lemma show_int_hd: "hd (show_int i) = CHR ''-'' \<longleftrightarrow> i < 0"
proof (cases "i < 0")
  case True
  then show ?thesis by (simp add: show_int_def)
next
  case False
  have "hd (show_nat (nat i)) \<in> set (show_nat (nat i))"
    using show_nat_nonempty by (rule hd_in_set)
  with show_nat_no_minus have "hd (show_nat (nat i)) \<noteq> CHR ''-''" by metis
  with False show ?thesis by (simp add: show_int_def)
qed

lemma show_int_inj: "show_int a = show_int b \<Longrightarrow> a = b"
proof -
  assume eq: "show_int a = show_int b"
  then have sgn: "a < 0 \<longleftrightarrow> b < 0" using show_int_hd by metis
  show ?thesis
  proof (cases "a < 0")
    case True
    with sgn eq have "show_nat (nat (- a)) = show_nat (nat (- b))" by (simp add: show_int_def)
    then have "nat (- a) = nat (- b)" by (rule show_nat_inj)
    with True sgn show ?thesis by simp
  next
    case False
    with sgn eq have "show_nat (nat a) = show_nat (nat b)" by (simp add: show_int_def)
    then have "nat a = nat b" by (rule show_nat_inj)
    with False sgn show ?thesis by simp
  qed
qed

lemma show_int_no_sep: "CHR ''_'' \<notin> set (show_int i)"
  using show_nat_chars [of "nat i"] show_nat_chars [of "nat (- i)"] by (auto simp: show_int_def)

lemma last_segment_eq:
  assumes "xs @ sep # a = ys @ sep # b" and "sep \<notin> set a" and "sep \<notin> set b"
  shows "a = b"
proof -
  have "takeWhile (\<lambda>c. c \<noteq> sep) (rev (xs @ sep # a)) = rev a"
    using assms(2) by (auto simp: takeWhile_tail)
  moreover have "takeWhile (\<lambda>c. c \<noteq> sep) (rev (ys @ sep # b)) = rev b"
    using assms(3) by (auto simp: takeWhile_tail)
  ultimately show ?thesis using assms(1) by (metis rev_is_rev_conv)
qed

section \<open>The retry loop\<close>

lemma Retry_ok:
  "operation i s = (None, s1) \<Longrightarrow> Retry operation sleep ds cerr i s = (None, s1)"
  by (cases ds) simp_all

lemma Retry_permanent:
  "operation i s = (Some e, s1) \<Longrightarrow> asPermanent e = Some p \<Longrightarrow>
     Retry operation sleep ds cerr i s = (Some p, s1)"
  by (cases ds) simp_all

lemma Retry_stop:
  "operation i s = (Some e, s1) \<Longrightarrow> asPermanent e = None \<Longrightarrow>
     Retry operation sleep [] cerr i s = (case cerr of Some ce \<Rightarrow> Some ce | None \<Rightarrow> Some e, s1)"
  by (simp split: option.splits)

lemma Retry_again:
  "operation i s = (Some e, s1) \<Longrightarrow> asPermanent e = None \<Longrightarrow>
     Retry operation sleep (d # ds) cerr i s = Retry operation sleep ds cerr (Suc i) (sleep d s1)"
  by simp

section \<open>The outcomes of \<open>InsertRows\<close>\<close>

lemma emit_trace: "emit ev sh = sh\<lparr>trace := trace sh @ [ev]\<rparr>"
  by (simp add: emit_def)

lemma uploadAttempt_eq:
  "uploadAttempt env u p b h i sh =
     (upload env u i p b h, sh\<lparr>trace := trace sh @ [UploadCall u p b h]\<rparr>)"
  by (simp add: uploadAttempt_def emit_def)

lemma Retry_upload_trace:
  "Retry (uploadAttempt env u p b h) sleepShared ds cerr i sh = (r, sh') \<Longrightarrow>
     \<exists>k\<le>length ds. sh' = sh\<lparr>trace := trace sh @ uploadEvents u p b h (take k ds)\<rparr>"
proof (induction ds arbitrary: i sh)
  case Nil
  let ?s1 = "sh\<lparr>trace := trace sh @ [UploadCall u p b h]\<rparr>"
  have ua: "uploadAttempt env u p b h i sh = (upload env u i p b h, ?s1)"
    by (rule uploadAttempt_eq)
  have "sh' = ?s1"
  proof (cases "upload env u i p b h")
    case None
    with ua Retry_ok [of "uploadAttempt env u p b h" i sh ?s1] Nil show ?thesis by simp
  next
    case (Some e)
    show ?thesis
    proof (cases "asPermanent e")
      case None
      with Some ua Retry_stop [of "uploadAttempt env u p b h" i sh e ?s1] Nil show ?thesis by simp
    next
      case (Some q)
      with \<open>upload env u i p b h = Some e\<close> ua
        Retry_permanent [of "uploadAttempt env u p b h" i sh e ?s1] Nil
      show ?thesis by simp
    qed
  qed
  then show ?case by simp
next
  case (Cons d ds)
  let ?s1 = "sh\<lparr>trace := trace sh @ [UploadCall u p b h]\<rparr>"
  have ua: "uploadAttempt env u p b h i sh = (upload env u i p b h, ?s1)"
    by (rule uploadAttempt_eq)
  show ?case
  proof (cases "\<exists>e. upload env u i p b h = Some e \<and> asPermanent e = None")
    case True
    then obtain e where e: "upload env u i p b h = Some e" "asPermanent e = None" by blast
    from e ua Retry_again [of "uploadAttempt env u p b h" i sh e ?s1] Cons.prems
    have "Retry (uploadAttempt env u p b h) sleepShared ds cerr (Suc i) (sleepShared d ?s1) = (r, sh')"
      by simp
    from Cons.IH [OF this] obtain k where k: "k \<le> length ds"
      "sh' = (sleepShared d ?s1)\<lparr>trace := trace (sleepShared d ?s1) @ uploadEvents u p b h (take k ds)\<rparr>"
      by blast
    have "sh' = sh\<lparr>trace := trace sh @ uploadEvents u p b h (take (Suc k) (d # ds))\<rparr>"
      using k(2) by (simp add: sleepShared_def emit_def)
    with k(1) show ?thesis by (intro exI [of _ "Suc k"]) simp
  next
    case False
    have "sh' = ?s1"
    proof (cases "upload env u i p b h")
      case None
      with ua Retry_ok [of "uploadAttempt env u p b h" i sh ?s1] Cons.prems show ?thesis by simp
    next
      case (Some e)
      with False obtain q where q: "asPermanent e = Some q" by auto
      with Some ua Retry_permanent [of "uploadAttempt env u p b h" i sh e ?s1] Cons.prems
      show ?thesis by simp
    qed
    then show ?thesis by (intro exI [of _ 0]) simp
  qed
qed


lemma InsertRows_response_cases:
  assumes "InsertRows_response stats n t0 t1 t2 resp c = ((st, eo), c')"
  shows "(eo \<noteq> None \<and> c' = c \<and> st = stats) \<or>
         (eo = None \<and> (\<exists>status chunk channel.
             Blobs_rbr resp = [status] \<and> Chunks_brs status = [chunk] \<and>
             Channels_chrs chunk = [channel] \<and> StatusCode_crs channel = responseSuccess \<and>
             c' = c\<lparr>rowSequencer := rowSequencer c + 1,
                    clientSequencer := ClientSequencer_crs channel\<rparr> \<and>
             st = stats\<lparr>CompressedOutputSize := int n,
                        BuildTime := time_Sub t1 t0, UploadTime := time_Sub t2 t1\<rparr>))"
  using assms
  by (auto simp: InsertRows_response_def split: list.splits if_splits)

lemma InsertRows_upload_outcome:
  assumes run: "InsertRows_upload env batch stats t0 path n metadata encrypted sh c = ((st, eo), sh', c')"
  shows
    "(\<exists>e. err (uploaderAtomic sh) = Some e \<and> eo = Some (AcquireStageUploader e) \<and>
          st = stats \<and> sh' = sh \<and> c' = c)
   \<or> (err (uploaderAtomic sh) = None \<and> uploader (uploaderAtomic sh) = None \<and>
          eo \<noteq> None \<and> st = stats \<and> sh' = sh \<and> c' = c)
   \<or> (\<exists>u k. err (uploaderAtomic sh) = None \<and> uploader (uploaderAtomic sh) = Some u \<and> k \<le> 3 \<and>
          uploaderAtomic sh' = uploaderAtomic sh \<and>
          (eo \<noteq> None \<and> st = stats \<and> c' = c \<and>
             requestIDCounter sh' = requestIDCounter sh \<and>
             trace sh' = trace sh @
                      uploadEvents u path encrypted (md5_Sum env encrypted) (replicate k 1000)
         \<or> length encrypted < n \<and> eo \<noteq> None \<and> st = stats \<and> c' = c \<and>
             requestIDCounter sh' = requestIDCounter sh + 1 \<and>
             trace sh' = trace sh @
                      uploadEvents u path encrypted (md5_Sum env encrypted) (replicate k 1000)
         \<or> \<not> length encrypted < n \<and>
             requestIDCounter sh' = requestIDCounter sh + 1 \<and>
             trace sh' = trace sh @
                        uploadEvents u path encrypted (md5_Sum env encrypted) (replicate k 1000) @
                        [RegisterBlobCall (registerBlobRequestOf env c batch
                           (sprintf_s_d (clientPrefix c) (requestIDCounter sh + 1)) path encrypted
                           (md5_Sum env encrypted) n metadata t0 (time_Now env 1) (time_Now env 2))] \<and>
             ((\<exists>e. registerBlob env (registerBlobRequestOf env c batch
                           (sprintf_s_d (clientPrefix c) (requestIDCounter sh + 1)) path encrypted
                           (md5_Sum env encrypted) n metadata t0 (time_Now env 1) (time_Now env 2)) = Inl e \<and>
                   eo = Some e \<and> st = stats \<and> c' = c)
              \<or> (\<exists>resp. registerBlob env (registerBlobRequestOf env c batch
                           (sprintf_s_d (clientPrefix c) (requestIDCounter sh + 1)) path encrypted
                           (md5_Sum env encrypted) n metadata t0 (time_Now env 1) (time_Now env 2)) = Inr resp \<and>
                   InsertRows_response stats n t0 (time_Now env 1) (time_Now env 2) resp c
                     = ((st, eo), c')))))"
proof (cases "err (uploaderAtomic sh)")
  case (Some e)
  with run show ?thesis by (auto simp: InsertRows_upload_def)
next
  case None
  note noerr = None
  show ?thesis
  proof (cases "uploader (uploaderAtomic sh)")
    case None
    with noerr run show ?thesis by (auto simp: InsertRows_upload_def)
  next
    case (Some u)
    let ?h = "md5_Sum env encrypted"
    obtain r sh2 where ret:
      "Retry (uploadAttempt env u path encrypted ?h) sleepShared (WithMaxRetries_Constant 1000 3)
         None 0 sh = (r, sh2)"
      by (cases "Retry (uploadAttempt env u path encrypted ?h) sleepShared
                   (WithMaxRetries_Constant 1000 3) None 0 sh")
    from Retry_upload_trace [OF ret] obtain k where k: "k \<le> 3"
      and sh2: "sh2 = sh\<lparr>trace := trace sh @ uploadEvents u path encrypted ?h (replicate k 1000)\<rparr>"
      by (auto simp: WithMaxRetries_Constant_def min_def)
    have sh2': "requestIDCounter sh2 = requestIDCounter sh" "uploaderAtomic sh2 = uploaderAtomic sh"
      "trace sh2 = trace sh @ uploadEvents u path encrypted ?h (replicate k 1000)"
      by (simp_all add: sh2)
    have "uploaderAtomic sh' = uploaderAtomic sh2 \<and>
         (eo \<noteq> None \<and> st = stats \<and> c' = c \<and> requestIDCounter sh' = requestIDCounter sh2 \<and>
             trace sh' = trace sh2
         \<or> length encrypted < n \<and> eo \<noteq> None \<and> st = stats \<and> c' = c \<and>
             requestIDCounter sh' = requestIDCounter sh2 + 1 \<and> trace sh' = trace sh2
         \<or> \<not> length encrypted < n \<and>
             requestIDCounter sh' = requestIDCounter sh2 + 1 \<and>
             trace sh' = trace sh2 @
                        [RegisterBlobCall (registerBlobRequestOf env c batch
                           (sprintf_s_d (clientPrefix c) (requestIDCounter sh2 + 1)) path encrypted
                           ?h n metadata t0 (time_Now env 1) (time_Now env 2))] \<and>
             ((\<exists>e. registerBlob env (registerBlobRequestOf env c batch
                           (sprintf_s_d (clientPrefix c) (requestIDCounter sh2 + 1)) path encrypted
                           ?h n metadata t0 (time_Now env 1) (time_Now env 2)) = Inl e \<and>
                   eo = Some e \<and> st = stats \<and> c' = c)
              \<or> (\<exists>resp. registerBlob env (registerBlobRequestOf env c batch
                           (sprintf_s_d (clientPrefix c) (requestIDCounter sh2 + 1)) path encrypted
                           ?h n metadata t0 (time_Now env 1) (time_Now env 2)) = Inr resp \<and>
                   InsertRows_response stats n t0 (time_Now env 1) (time_Now env 2) resp c
                     = ((st, eo), c'))))"
    proof (cases r)
      case (Some e)
      with run noerr \<open>uploader (uploaderAtomic sh) = Some u\<close> ret show ?thesis
        by (auto simp: InsertRows_upload_def)
    next
      case None
      with run noerr \<open>uploader (uploaderAtomic sh) = Some u\<close> ret show ?thesis
        by (auto simp: InsertRows_upload_def nextRequestID_def emit_def Let_def
              split: if_splits sum.splits prod.splits)
    qed
    then have "\<exists>k. err (uploaderAtomic sh) = None \<and> uploader (uploaderAtomic sh) = Some u \<and> k \<le> 3 \<and>
          uploaderAtomic sh' = uploaderAtomic sh \<and>
          (eo \<noteq> None \<and> st = stats \<and> c' = c \<and>
             requestIDCounter sh' = requestIDCounter sh \<and>
             trace sh' = trace sh @
                      uploadEvents u path encrypted (md5_Sum env encrypted) (replicate k 1000)
         \<or> length encrypted < n \<and> eo \<noteq> None \<and> st = stats \<and> c' = c \<and>
             requestIDCounter sh' = requestIDCounter sh + 1 \<and>
             trace sh' = trace sh @
                      uploadEvents u path encrypted (md5_Sum env encrypted) (replicate k 1000)
         \<or> \<not> length encrypted < n \<and>
             requestIDCounter sh' = requestIDCounter sh + 1 \<and>
             trace sh' = trace sh @
                        uploadEvents u path encrypted (md5_Sum env encrypted) (replicate k 1000) @
                        [RegisterBlobCall (registerBlobRequestOf env c batch
                           (sprintf_s_d (clientPrefix c) (requestIDCounter sh + 1)) path encrypted
                           (md5_Sum env encrypted) n metadata t0 (time_Now env 1) (time_Now env 2))] \<and>
             ((\<exists>e. registerBlob env (registerBlobRequestOf env c batch
                           (sprintf_s_d (clientPrefix c) (requestIDCounter sh + 1)) path encrypted
                           (md5_Sum env encrypted) n metadata t0 (time_Now env 1) (time_Now env 2)) = Inl e \<and>
                   eo = Some e \<and> st = stats \<and> c' = c)
              \<or> (\<exists>resp. registerBlob env (registerBlobRequestOf env c batch
                           (sprintf_s_d (clientPrefix c) (requestIDCounter sh + 1)) path encrypted
                           (md5_Sum env encrypted) n metadata t0 (time_Now env 1) (time_Now env 2)) = Inr resp \<and>
                   InsertRows_response stats n t0 (time_Now env 1) (time_Now env 2) resp c
                     = ((st, eo), c'))))"
      unfolding sh2' using noerr \<open>uploader (uploaderAtomic sh) = Some u\<close> k
      by (intro exI [of _ k]) simp
    then show ?thesis by blast
  qed
qed

lemma InsertRows_outcome:
  assumes run: "InsertRows env batch sh c = ((st, eo), sh', c')"
  shows
    "(eo \<noteq> None \<and> trace sh' = trace sh \<and> uploaderAtomic sh' = uploaderAtomic sh \<and>
        (requestIDCounter sh' = requestIDCounter sh \<or> requestIDCounter sh' = requestIDCounter sh + 1) \<and>
        rowSequencer c' = rowSequencer c \<and> clientSequencer c' = clientSequencer c \<and>
        clientPrefix c' = clientPrefix c)
   \<or> (\<exists>rows unencrypted metadata encrypted.
        constructRowGroup env batch = Inr rows \<and>
        writeParquetFile env (version c) rows
          ((fileMetadata c)(''primaryFileId'' \<mapsto> path_Base (blobPath env sh c))) = (unencrypted, None) \<and>
        readParquetMetadata env unencrypted = Inr metadata \<and>
        encrypt env (padBuffer env unencrypted aes_BlockSize) (encryptionKey (encryptionInfo c))
          (blobPath env sh c) 0 = Inr encrypted \<and>
        InsertRows_upload env batch \<lparr>BuildTime = 0, UploadTime = 0, CompressedOutputSize = 0\<rparr>
          (time_Now env 0) (blobPath env sh c) (length unencrypted) metadata encrypted
          (sh\<lparr>requestIDCounter := requestIDCounter sh + 1\<rparr>)
          (c\<lparr>fileMetadata := (fileMetadata c)(''primaryFileId'' \<mapsto> path_Base (blobPath env sh c)),
             buffer := unencrypted\<rparr>) = ((st, eo), sh', c'))"
  using run
  by (auto simp: InsertRows_def Let_def split: sum.splits prod.splits option.splits)

lemma InsertRows_run:
  "InsertRows env batch sh c =
     ((InsertRows_stats env batch sh c, InsertRows_err env batch sh c),
      InsertRows_shared env batch sh c, InsertRows_channel env batch sh c)"
  by (simp add: InsertRows_stats_def InsertRows_err_def InsertRows_shared_def InsertRows_channel_def)

lemma InsertRows_success:
  assumes ok: "InsertRows_err env batch sh c = None"
  shows "\<exists>rows unencrypted metadata encrypted u k resp status chunk channel.
      constructRowGroup env batch = Inr rows \<and>
      writeParquetFile env (version c) rows
        ((fileMetadata c)(''primaryFileId'' \<mapsto> path_Base (blobPath env sh c))) = (unencrypted, None) \<and>
      readParquetMetadata env unencrypted = Inr metadata \<and>
      encrypt env (padBuffer env unencrypted aes_BlockSize) (encryptionKey (encryptionInfo c))
        (blobPath env sh c) 0 = Inr encrypted \<and>
      uploader (uploaderAtomic sh) = Some u \<and> k \<le> 3 \<and>
      InsertRows_events env batch sh c =
        uploadEvents u (blobPath env sh c) encrypted (md5_Sum env encrypted) (replicate k 1000) @
        [RegisterBlobCall (registerBlobRequestOf env
           (c\<lparr>fileMetadata := (fileMetadata c)(''primaryFileId'' \<mapsto> path_Base (blobPath env sh c)),
              buffer := unencrypted\<rparr>) batch
           (sprintf_s_d (clientPrefix c) (requestIDCounter sh + 2)) (blobPath env sh c) encrypted
           (md5_Sum env encrypted) (length unencrypted) metadata
           (time_Now env 0) (time_Now env 1) (time_Now env 2))] \<and>
      registerBlob env (registerBlobRequestOf env
           (c\<lparr>fileMetadata := (fileMetadata c)(''primaryFileId'' \<mapsto> path_Base (blobPath env sh c)),
              buffer := unencrypted\<rparr>) batch
           (sprintf_s_d (clientPrefix c) (requestIDCounter sh + 2)) (blobPath env sh c) encrypted
           (md5_Sum env encrypted) (length unencrypted) metadata
           (time_Now env 0) (time_Now env 1) (time_Now env 2)) = Inr resp \<and>
      Blobs_rbr resp = [status] \<and> Chunks_brs status = [chunk] \<and>
      Channels_chrs chunk = [channel] \<and> StatusCode_crs channel = responseSuccess \<and>
      InsertRows_channel env batch sh c =
        c\<lparr>fileMetadata := (fileMetadata c)(''primaryFileId'' \<mapsto> path_Base (blobPath env sh c)),
          buffer := unencrypted, rowSequencer := rowSequencer c + 1,
          clientSequencer := ClientSequencer_crs channel\<rparr> \<and>
      CompressedOutputSize (InsertRows_stats env batch sh c) = int (length unencrypted) \<and>
      requestIDCounter (InsertRows_shared env batch sh c) = requestIDCounter sh + 2"
proof -
  let ?st = "InsertRows_stats env batch sh c" and ?sh' = "InsertRows_shared env batch sh c"
    and ?c' = "InsertRows_channel env batch sh c"
  have run: "InsertRows env batch sh c = ((?st, None), ?sh', ?c')"
    using InsertRows_run [of env batch sh c] ok by simp
  from InsertRows_outcome [OF run] obtain rows unencrypted metadata encrypted where
    pre: "constructRowGroup env batch = Inr rows"
      "writeParquetFile env (version c) rows
        ((fileMetadata c)(''primaryFileId'' \<mapsto> path_Base (blobPath env sh c))) = (unencrypted, None)"
      "readParquetMetadata env unencrypted = Inr metadata"
      "encrypt env (padBuffer env unencrypted aes_BlockSize) (encryptionKey (encryptionInfo c))
        (blobPath env sh c) 0 = Inr encrypted"
    and up: "InsertRows_upload env batch \<lparr>BuildTime = 0, UploadTime = 0, CompressedOutputSize = 0\<rparr>
          (time_Now env 0) (blobPath env sh c) (length unencrypted) metadata encrypted
          (sh\<lparr>requestIDCounter := requestIDCounter sh + 1\<rparr>)
          (c\<lparr>fileMetadata := (fileMetadata c)(''primaryFileId'' \<mapsto> path_Base (blobPath env sh c)),
             buffer := unencrypted\<rparr>) = ((?st, None), ?sh', ?c')"
    by auto
  let ?c2 = "c\<lparr>fileMetadata := (fileMetadata c)(''primaryFileId'' \<mapsto> path_Base (blobPath env sh c)),
             buffer := unencrypted\<rparr>"
  let ?req = "registerBlobRequestOf env ?c2 batch
           (sprintf_s_d (clientPrefix c) (requestIDCounter sh + 2)) (blobPath env sh c) encrypted
           (md5_Sum env encrypted) (length unencrypted) metadata
           (time_Now env 0) (time_Now env 1) (time_Now env 2)"
  from InsertRows_upload_outcome [OF up] obtain u k resp where
    u: "uploader (uploaderAtomic sh) = Some u" "k \<le> 3"
    and cnt: "requestIDCounter ?sh' = requestIDCounter sh + 2"
    and tr: "trace ?sh' = trace sh @
        uploadEvents u (blobPath env sh c) encrypted (md5_Sum env encrypted) (replicate k 1000) @
        [RegisterBlobCall ?req]"
    and reg: "registerBlob env ?req = Inr resp"
    and resp: "InsertRows_response \<lparr>BuildTime = 0, UploadTime = 0, CompressedOutputSize = 0\<rparr>
        (length unencrypted) (time_Now env 0) (time_Now env 1) (time_Now env 2) resp ?c2
         = ((?st, None), ?c')"
    by (auto simp: add.commute)
  from InsertRows_response_cases [OF resp] obtain status chunk channel where
    shape: "Blobs_rbr resp = [status]" "Chunks_brs status = [chunk]"
      "Channels_chrs chunk = [channel]" "StatusCode_crs channel = responseSuccess"
    and c': "?c' = ?c2\<lparr>rowSequencer := rowSequencer ?c2 + 1,
                    clientSequencer := ClientSequencer_crs channel\<rparr>"
    and st: "?st = \<lparr>BuildTime = 0, UploadTime = 0, CompressedOutputSize = 0\<rparr>
                 \<lparr>CompressedOutputSize := int (length unencrypted),
                  BuildTime := time_Sub (time_Now env 1) (time_Now env 0),
                  UploadTime := time_Sub (time_Now env 2) (time_Now env 1)\<rparr>"
    by auto
  have ev: "InsertRows_events env batch sh c =
        uploadEvents u (blobPath env sh c) encrypted (md5_Sum env encrypted) (replicate k 1000) @
        [RegisterBlobCall ?req]"
    by (simp add: InsertRows_events_def tr)
  have c'': "?c' = c\<lparr>fileMetadata := (fileMetadata c)(''primaryFileId'' \<mapsto> path_Base (blobPath env sh c)),
          buffer := unencrypted, rowSequencer := rowSequencer c + 1,
          clientSequencer := ClientSequencer_crs channel\<rparr>"
    by (simp add: c')
  have st': "CompressedOutputSize ?st = int (length unencrypted)"
    by (simp add: st)
  from pre u ev reg shape c'' st' cnt show ?thesis by blast
qed

lemma InsertRows_built_None:
  assumes "InsertRows_built env batch sh c = None"
  shows "InsertRows_err env batch sh c \<noteq> None
       \<and> InsertRows_stats env batch sh c = InsertStats_zero
       \<and> trace (InsertRows_shared env batch sh c) = trace sh
       \<and> uploaderAtomic (InsertRows_shared env batch sh c) = uploaderAtomic sh
       \<and> (requestIDCounter (InsertRows_shared env batch sh c) = requestIDCounter sh
          \<or> requestIDCounter (InsertRows_shared env batch sh c) = requestIDCounter sh + 1)
       \<and> rowSequencer (InsertRows_channel env batch sh c) = rowSequencer c
       \<and> clientSequencer (InsertRows_channel env batch sh c) = clientSequencer c"
  using assms
  by (auto simp: InsertRows_built_def InsertRows_def InsertRows_err_def InsertRows_shared_def
        InsertRows_channel_def InsertRows_stats_def InsertStats_zero_def Let_def
      split: sum.splits prod.splits option.splits)

lemma InsertRows_built_Some:
  assumes "InsertRows_built env batch sh c = Some (unencrypted, metadata, encrypted)"
  shows "InsertRows env batch sh c =
     InsertRows_upload env batch InsertStats_zero (time_Now env 0) (blobPath env sh c)
       (length unencrypted) metadata encrypted
       (sh\<lparr>requestIDCounter := requestIDCounter sh + 1\<rparr>) (InsertRows_c2 env sh c unencrypted)"
  using assms
  by (auto simp: InsertRows_built_def InsertRows_def InsertRows_c2_def InsertStats_zero_def Let_def
      split: sum.splits prod.splits option.splits)

lemma InsertRows_cases:
  assumes built: "InsertRows_built env batch sh c = Some (unencrypted, metadata, encrypted)"
  shows
    "(\<exists>e. err (uploaderAtomic sh) = Some e \<and>
          InsertRows_err env batch sh c = Some (AcquireStageUploader e) \<and>
          InsertRows_stats env batch sh c = InsertStats_zero \<and>
          InsertRows_shared env batch sh c = sh\<lparr>requestIDCounter := requestIDCounter sh + 1\<rparr> \<and>
          InsertRows_channel env batch sh c = InsertRows_c2 env sh c unencrypted)
   \<or> (err (uploaderAtomic sh) = None \<and> uploader (uploaderAtomic sh) = None \<and>
          InsertRows_err env batch sh c \<noteq> None \<and>
          InsertRows_stats env batch sh c = InsertStats_zero \<and>
          InsertRows_shared env batch sh c = sh\<lparr>requestIDCounter := requestIDCounter sh + 1\<rparr> \<and>
          InsertRows_channel env batch sh c = InsertRows_c2 env sh c unencrypted)
   \<or> (\<exists>u k. err (uploaderAtomic sh) = None \<and> uploader (uploaderAtomic sh) = Some u \<and> k \<le> 3 \<and>
          uploaderAtomic (InsertRows_shared env batch sh c) = uploaderAtomic sh \<and>
          (InsertRows_err env batch sh c \<noteq> None \<and>
             InsertRows_stats env batch sh c = InsertStats_zero \<and>
             InsertRows_channel env batch sh c = InsertRows_c2 env sh c unencrypted \<and>
             requestIDCounter (InsertRows_shared env batch sh c) = requestIDCounter sh + 1 \<and>
             trace (InsertRows_shared env batch sh c) = trace sh @
               uploadEvents u (blobPath env sh c) encrypted (md5_Sum env encrypted) (replicate k 1000)
         \<or> length encrypted < length unencrypted \<and>
             InsertRows_err env batch sh c \<noteq> None \<and>
             InsertRows_stats env batch sh c = InsertStats_zero \<and>
             InsertRows_channel env batch sh c = InsertRows_c2 env sh c unencrypted \<and>
             requestIDCounter (InsertRows_shared env batch sh c) = requestIDCounter sh + 2 \<and>
             trace (InsertRows_shared env batch sh c) = trace sh @
               uploadEvents u (blobPath env sh c) encrypted (md5_Sum env encrypted) (replicate k 1000)
         \<or> \<not> length encrypted < length unencrypted \<and>
             requestIDCounter (InsertRows_shared env batch sh c) = requestIDCounter sh + 2 \<and>
             trace (InsertRows_shared env batch sh c) = trace sh @
               uploadEvents u (blobPath env sh c) encrypted (md5_Sum env encrypted) (replicate k 1000) @
               [RegisterBlobCall (InsertRows_request env batch sh c unencrypted metadata encrypted)] \<and>
             ((\<exists>e. registerBlob env (InsertRows_request env batch sh c unencrypted metadata encrypted)
                     = Inl e \<and>
                   InsertRows_err env batch sh c = Some e \<and>
                   InsertRows_stats env batch sh c = InsertStats_zero \<and>
                   InsertRows_channel env batch sh c = InsertRows_c2 env sh c unencrypted)
              \<or> (\<exists>resp. registerBlob env (InsertRows_request env batch sh c unencrypted metadata encrypted)
                     = Inr resp \<and>
                   InsertRows_response InsertStats_zero (length unencrypted) (time_Now env 0)
                       (time_Now env 1) (time_Now env 2) resp (InsertRows_c2 env sh c unencrypted)
                     = ((InsertRows_stats env batch sh c, InsertRows_err env batch sh c),
                        InsertRows_channel env batch sh c)))))"
proof -
  let ?sh1 = "sh\<lparr>requestIDCounter := requestIDCounter sh + 1\<rparr>"
  have run: "InsertRows_upload env batch InsertStats_zero (time_Now env 0) (blobPath env sh c)
       (length unencrypted) metadata encrypted ?sh1 (InsertRows_c2 env sh c unencrypted)
     = ((InsertRows_stats env batch sh c, InsertRows_err env batch sh c),
        InsertRows_shared env batch sh c, InsertRows_channel env batch sh c)"
    using InsertRows_built_Some [OF built] InsertRows_run [of env batch sh c] by simp
  have c2: "clientPrefix (InsertRows_c2 env sh c unencrypted) = clientPrefix c"
    by (simp add: InsertRows_c2_def)
  have two: "requestIDCounter sh + 1 + 1 = requestIDCounter sh + 2" by simp
  from InsertRows_upload_outcome [OF run] show ?thesis
    unfolding InsertRows_request_def c2
    by (simp add: two)
qed

lemma uploadEvents_no_register: "ev \<in> set (uploadEvents u p b h ds) \<Longrightarrow> \<not> isRegisterBlobCall ev"
  by (induction ds) auto

lemma RegisterBlobCall_notin_uploadEvents: "RegisterBlobCall req \<notin> set (uploadEvents u p b h ds)"
  by (induction ds) auto

lemma filter_register_uploadEvents: "filter isRegisterBlobCall (uploadEvents u p b h ds) = []"
  by (induction ds) auto

lemma filter_upload_uploadEvents:
  "length (filter isUploadCall (uploadEvents u p b h ds)) = Suc (length ds)"
  by (induction ds) auto

lemma InsertRows_response_wrongShape:
  assumes "wrongShape resp"
  shows "\<exists>m. InsertRows_response st n t0 t1 t2 resp c = ((st, Some (UnexpectedBlobs m)), c)
           \<or> InsertRows_response st n t0 t1 t2 resp c = ((st, Some (UnexpectedChunks m)), c)
           \<or> InsertRows_response st n t0 t1 t2 resp c = ((st, Some (UnexpectedChannels m)), c)"
  using assms
  by (auto simp: wrongShape_def InsertRows_response_def split: list.splits)

lemma InsertRows_events_built_None:
  "InsertRows_built env batch sh c = None \<Longrightarrow> InsertRows_events env batch sh c = []"
  using InsertRows_built_None [of env batch sh c] by (simp add: InsertRows_events_def)

lemma sint_int32_of_nat: "n < 2 ^ 31 \<Longrightarrow> sint (word_of_nat n :: int32) = int n"
  by (simp add: signed_of_nat signed_take_bit_int_eq_self)

lemma isRegisterBlobCall_ex: "isRegisterBlobCall ev \<Longrightarrow> \<exists>req. ev = RegisterBlobCall req"
  by (cases ev) auto

lemma uploadRefreshLoop_configure_error:
  "configureClient env k (Role opts) = Inl e \<Longrightarrow>
     err (uploaderAtomic (uploadRefreshLoop env opts k sh)) = Some e"
  by (simp add: uploadRefreshLoop_def)

lemmas run_defs = InsertRows_def InsertRows_upload_def InsertRows_response_def
  InsertRows_err_def InsertRows_stats_def InsertRows_shared_def InsertRows_channel_def
  InsertRows_events_def env_ok_def shared0_def channel0_def client0_def options0_def
  WithMaxRetries_Constant_def uploadAttempt_def sleepShared_def emit_def nextRequestID_def
  registerBlobRequestOf_def responseSuccess_def Let_def numeral_3_eq_3

section \<open>Sequencers\<close>

text \<open>
  C1. Every call of \<open>InsertRows\<close> that returns without an error leaves the channel with
  its row sequencer advanced by exactly 1 (one more as a signed number, unless it was the
  greatest \<open>int64\<close>), and with the client sequencer that the one channel entry of the
  response of \<open>registerBlob\<close> carries: the last event of the call is the registration,
  and its response has one blob, one chunk and one channel, with the success status.
\<close>

theorem InsertRows_success_sequencers:
  assumes "InsertRows_err env batch sh c = None"
  shows "rowSequencer (InsertRows_channel env batch sh c) = rowSequencer c + 1
       \<and> (sint (rowSequencer c) < 2 ^ 63 - 1 \<longrightarrow>
            sint (rowSequencer (InsertRows_channel env batch sh c)) = sint (rowSequencer c) + 1)
       \<and> (\<exists>req resp status chunk channel.
            InsertRows_events env batch sh c \<noteq> [] \<and>
            last (InsertRows_events env batch sh c) = RegisterBlobCall req \<and>
            registerBlob env req = Inr resp \<and>
            Blobs_rbr resp = [status] \<and> Chunks_brs status = [chunk] \<and>
            Channels_chrs chunk = [channel] \<and> StatusCode_crs channel = responseSuccess \<and>
            clientSequencer (InsertRows_channel env batch sh c) = ClientSequencer_crs channel)"
proof -
  from InsertRows_success [OF assms] obtain req resp status chunk channel evs unencrypted where
    f: "InsertRows_events env batch sh c = evs @ [RegisterBlobCall req]"
      "registerBlob env req = Inr resp"
      "Blobs_rbr resp = [status]" "Chunks_brs status = [chunk]"
      "Channels_chrs chunk = [channel]" "StatusCode_crs channel = responseSuccess"
      "InsertRows_channel env batch sh c =
        c\<lparr>fileMetadata := (fileMetadata c)(''primaryFileId'' \<mapsto> path_Base (blobPath env sh c)),
          buffer := unencrypted, rowSequencer := rowSequencer c + 1,
          clientSequencer := ClientSequencer_crs channel\<rparr>"
    by blast
  have row: "rowSequencer (InsertRows_channel env batch sh c) = rowSequencer c + 1"
    and cl: "clientSequencer (InsertRows_channel env batch sh c) = ClientSequencer_crs channel"
    by (simp_all add: f(7))
  have "sint (rowSequencer c + 1) = sint (rowSequencer c) + 1" if "sint (rowSequencer c) < 2 ^ 63 - 1"
  proof -
    have "- (2 ^ 63) \<le> sint (rowSequencer c)"
      using sint_ge [of "rowSequencer c"] by simp
    with that show ?thesis
      by (simp add: sint_word_ariths signed_take_bit_int_eq_self)
  qed
  with row cl f(1-6) show ?thesis by auto
qed

theorem InsertRows_success_sequencers_witness:
  "InsertRows_err env_ok [] shared0 channel0 = None
   \<and> rowSequencer (InsertRows_channel env_ok [] shared0 channel0) = rowSequencer channel0 + 1
   \<and> clientSequencer (InsertRows_channel env_ok [] shared0 channel0) = 7"
proof -
  have h: "InsertRows_err env_ok [] shared0 channel0 = None"
    by (simp add: run_defs)
  have "clientSequencer (InsertRows_channel env_ok [] shared0 channel0) = 7"
    by (simp add: run_defs)
  with h InsertRows_success_sequencers [OF h] show ?thesis by simp
qed

text \<open>
  C2. Every call of \<open>InsertRows\<close> that returns an error, whichever it is, leaves the row
  sequencer and the client sequencer of the channel as they were before the call.
\<close>

theorem InsertRows_error_sequencers:
  assumes "InsertRows_err env batch sh c = Some e"
  shows "rowSequencer (InsertRows_channel env batch sh c) = rowSequencer c
       \<and> clientSequencer (InsertRows_channel env batch sh c) = clientSequencer c"
proof -
  let ?st = "InsertRows_stats env batch sh c" and ?sh' = "InsertRows_shared env batch sh c"
    and ?c' = "InsertRows_channel env batch sh c"
  have run: "InsertRows env batch sh c = ((?st, Some e), ?sh', ?c')"
    using InsertRows_run [of env batch sh c] assms by simp
  from InsertRows_outcome [OF run] consider
      (early) "rowSequencer ?c' = rowSequencer c" "clientSequencer ?c' = clientSequencer c"
    | (late) unencrypted metadata encrypted where
        "InsertRows_upload env batch \<lparr>BuildTime = 0, UploadTime = 0, CompressedOutputSize = 0\<rparr>
          (time_Now env 0) (blobPath env sh c) (length unencrypted) metadata encrypted
          (sh\<lparr>requestIDCounter := requestIDCounter sh + 1\<rparr>)
          (c\<lparr>fileMetadata := (fileMetadata c)(''primaryFileId'' \<mapsto> path_Base (blobPath env sh c)),
             buffer := unencrypted\<rparr>) = ((?st, Some e), ?sh', ?c')"
    by blast
  then show ?thesis
  proof cases
    case early
    then show ?thesis by simp
  next
    case late
    from InsertRows_upload_outcome [OF late] show ?thesis
      by (auto dest!: InsertRows_response_cases)
  qed
qed

theorem InsertRows_error_sequencers_witness:
  "InsertRows_err env_reject [] shared0 channel0 = Some (IngestStatus 5 ''(no message)'')
   \<and> rowSequencer (InsertRows_channel env_reject [] shared0 channel0) = rowSequencer channel0
   \<and> clientSequencer (InsertRows_channel env_reject [] shared0 channel0) = clientSequencer channel0"
proof -
  have h: "InsertRows_err env_reject [] shared0 channel0 = Some (IngestStatus 5 ''(no message)'')"
    by (simp add: env_reject_def run_defs)
  with InsertRows_error_sequencers [OF h] show ?thesis by simp
qed

section \<open>The size reported by \<open>InsertRows\<close>\<close>

text \<open>
  C10, as amended. After a successful call, \<open>CompressedOutputSize\<close> is the length of the
  file as \<open>writeParquetFile\<close> serialized it, before \<open>padBuffer\<close> and \<open>encrypt\<close>, whatever
  these two return. The registration, the last event of the call, reports as \<open>ChunkLength\<close>
  of its one chunk that length converted to \<open>int32\<close>: the length itself for a file
  shorter than \<open>2^31\<close> bytes.
\<close>

theorem InsertRows_CompressedOutputSize:
  assumes "InsertRows_err env batch sh c = None"
  shows "\<exists>rows unencrypted req blob chunk.
      constructRowGroup env batch = Inr rows \<and>
      writeParquetFile env (version c) rows
        ((fileMetadata c)(''primaryFileId'' \<mapsto> path_Base (blobPath env sh c))) = (unencrypted, None) \<and>
      CompressedOutputSize (InsertRows_stats env batch sh c) = int (length unencrypted) \<and>
      last (InsertRows_events env batch sh c) = RegisterBlobCall req \<and>
      Blobs_rb req = [blob] \<and> Chunks_bm blob = [chunk] \<and>
      ChunkLength_ch chunk = word_of_nat (length unencrypted) \<and>
      (length unencrypted < 2 ^ 31 \<longrightarrow> sint (ChunkLength_ch chunk) = int (length unencrypted))"
proof -
  from InsertRows_success [OF assms] obtain rows unencrypted evs req where
    f: "constructRowGroup env batch = Inr rows"
      "writeParquetFile env (version c) rows
        ((fileMetadata c)(''primaryFileId'' \<mapsto> path_Base (blobPath env sh c))) = (unencrypted, None)"
      "CompressedOutputSize (InsertRows_stats env batch sh c) = int (length unencrypted)"
      "InsertRows_events env batch sh c = evs @ [RegisterBlobCall req]"
    and "\<exists>rid path encrypted h metadata t0 t1 t2 c2. req = registerBlobRequestOf env c2 batch rid path
            encrypted h (length unencrypted) metadata t0 t1 t2"
    by blast
  then obtain blob chunk where
    g: "Blobs_rb req = [blob]" "Chunks_bm blob = [chunk]"
      "ChunkLength_ch chunk = word_of_nat (length unencrypted)"
    by (auto simp: registerBlobRequestOf_def)
  have "sint (ChunkLength_ch chunk) = int (length unencrypted)" if "length unencrypted < 2 ^ 31"
    using that g(3) by (simp add: sint_int32_of_nat)
  with f g show ?thesis by auto
qed

theorem InsertRows_CompressedOutputSize_witness:
  "InsertRows_err env_ok [] shared0 channel0 = None
   \<and> CompressedOutputSize (InsertRows_stats env_ok [] shared0 channel0) = 3
   \<and> length (padBuffer env_ok [80, 65, 82] aes_BlockSize) = 16
   \<and> (\<exists>rows unencrypted req blob chunk.
      constructRowGroup env_ok [] = Inr rows \<and>
      writeParquetFile env_ok (version channel0) rows
        ((fileMetadata channel0)(''primaryFileId'' \<mapsto> path_Base (blobPath env_ok shared0 channel0)))
         = (unencrypted, None) \<and>
      CompressedOutputSize (InsertRows_stats env_ok [] shared0 channel0) = int (length unencrypted) \<and>
      last (InsertRows_events env_ok [] shared0 channel0) = RegisterBlobCall req \<and>
      Blobs_rb req = [blob] \<and> Chunks_bm blob = [chunk] \<and>
      ChunkLength_ch chunk = word_of_nat (length unencrypted) \<and>
      (length unencrypted < 2 ^ 31 \<longrightarrow> sint (ChunkLength_ch chunk) = int (length unencrypted)))"
proof -
  have h: "InsertRows_err env_ok [] shared0 channel0 = None"
    by (simp add: run_defs)
  have "CompressedOutputSize (InsertRows_stats env_ok [] shared0 channel0) = 3"
    by (simp add: run_defs)
  moreover have "length (padBuffer env_ok [80, 65, 82] aes_BlockSize) = 16"
    by (simp add: env_ok_def aes_BlockSize_def)
  ultimately show ?thesis using h InsertRows_CompressedOutputSize [OF h] by blast
qed

text \<open>
  C10, as stated, fails for a file of \<open>2^31\<close> bytes: the call succeeds and
  \<open>CompressedOutputSize\<close> is 2147483648, the length of the file, but the \<open>ChunkLength\<close>
  that the registration reports is \<open>int32(2147483648)\<close>, which is -2147483648.
\<close>

theorem InsertRows_ChunkLength_wraps:
  "InsertRows_err env_big [] shared0 channel0 = None
   \<and> CompressedOutputSize (InsertRows_stats env_big [] shared0 channel0) = 2147483648
   \<and> map sint (reportedChunkLengths (InsertRows_events env_big [] shared0 channel0)) = [- 2147483648]"
  by (simp add: env_big_def run_defs)

section \<open>Responses of the wrong shape\<close>

text \<open>
  C6. When the call has sent its registration and the response has not exactly one blob,
  or not exactly one chunk in it, or not exactly one channel in that, \<open>InsertRows\<close>
  returns the error of the failed count; the registration is the last event of the call
  and the only registration in it (no retry), and both sequencers keep their values.
\<close>

theorem InsertRows_wrong_shape:
  assumes sent: "RegisterBlobCall req \<in> set (InsertRows_events env batch sh c)"
    and resp: "registerBlob env req = Inr resp"
    and wrong: "wrongShape resp"
  shows "(\<exists>m. InsertRows_err env batch sh c = Some (UnexpectedBlobs m)
            \<or> InsertRows_err env batch sh c = Some (UnexpectedChunks m)
            \<or> InsertRows_err env batch sh c = Some (UnexpectedChannels m))
       \<and> last (InsertRows_events env batch sh c) = RegisterBlobCall req
       \<and> length (filter isRegisterBlobCall (InsertRows_events env batch sh c)) = 1
       \<and> rowSequencer (InsertRows_channel env batch sh c) = rowSequencer c
       \<and> clientSequencer (InsertRows_channel env batch sh c) = clientSequencer c"
proof (cases "InsertRows_built env batch sh c")
  case None
  from InsertRows_events_built_None [OF this] sent show ?thesis by simp
next
  case (Some t)
  then obtain unencrypted metadata encrypted where
    built: "InsertRows_built env batch sh c = Some (unencrypted, metadata, encrypted)"
    by (cases t) auto
  let ?R = "InsertRows_request env batch sh c unencrypted metadata encrypted"
  let ?c2 = "InsertRows_c2 env sh c unencrypted"
  from InsertRows_cases [OF built] sent obtain u k where
    tr: "InsertRows_events env batch sh c =
           uploadEvents u (blobPath env sh c) encrypted (md5_Sum env encrypted) (replicate k 1000) @
           [RegisterBlobCall ?R]"
    and alt: "(\<exists>e. registerBlob env ?R = Inl e)
              \<or> (\<exists>resp. registerBlob env ?R = Inr resp \<and>
                   InsertRows_response InsertStats_zero (length unencrypted) (time_Now env 0)
                       (time_Now env 1) (time_Now env 2) resp ?c2
                     = ((InsertRows_stats env batch sh c, InsertRows_err env batch sh c),
                        InsertRows_channel env batch sh c))"
    by (auto simp: InsertRows_events_def RegisterBlobCall_notin_uploadEvents)
  from sent tr have req: "req = ?R"
    by (simp add: RegisterBlobCall_notin_uploadEvents)
  with alt resp have run: "InsertRows_response InsertStats_zero (length unencrypted) (time_Now env 0)
                       (time_Now env 1) (time_Now env 2) resp ?c2
                     = ((InsertRows_stats env batch sh c, InsertRows_err env batch sh c),
                        InsertRows_channel env batch sh c)"
    by auto
  from InsertRows_response_wrongShape [OF wrong, of InsertStats_zero "length unencrypted"
      "time_Now env 0" "time_Now env 1" "time_Now env 2" ?c2] run
  have e: "\<exists>m. InsertRows_err env batch sh c = Some (UnexpectedBlobs m)
            \<or> InsertRows_err env batch sh c = Some (UnexpectedChunks m)
            \<or> InsertRows_err env batch sh c = Some (UnexpectedChannels m)"
    and c': "InsertRows_channel env batch sh c = ?c2"
    by auto
  have "rowSequencer ?c2 = rowSequencer c" "clientSequencer ?c2 = clientSequencer c"
    by (simp_all add: InsertRows_c2_def)
  with e c' tr req show ?thesis
    by (simp add: filter_register_uploadEvents)
qed

theorem InsertRows_wrong_shape_witness:
  "wrongShape \<lparr>Blobs_rbr = [\<lparr>Chunks_brs = []\<rparr>]\<rparr>
   \<and> InsertRows_err env_noChunks [] shared0 channel0 = Some (UnexpectedChunks 0)
   \<and> length (filter isRegisterBlobCall (InsertRows_events env_noChunks [] shared0 channel0)) = 1
   \<and> rowSequencer (InsertRows_channel env_noChunks [] shared0 channel0) = rowSequencer channel0
   \<and> clientSequencer (InsertRows_channel env_noChunks [] shared0 channel0) = clientSequencer channel0"
proof -
  have "map isRegisterBlobCall (InsertRows_events env_noChunks [] shared0 channel0) = [False, True]"
    by (simp add: env_noChunks_def run_defs)
  then obtain a b where ab: "InsertRows_events env_noChunks [] shared0 channel0 = [a, b]"
    and "isRegisterBlobCall b"
    by auto
  then obtain req where h1: "RegisterBlobCall req \<in> set (InsertRows_events env_noChunks [] shared0 channel0)"
    using isRegisterBlobCall_ex [of b] by auto
  have h2: "registerBlob env_noChunks req = Inr \<lparr>Blobs_rbr = [\<lparr>Chunks_brs = []\<rparr>]\<rparr>"
    by (simp add: env_noChunks_def env_ok_def)
  have h3: "wrongShape \<lparr>Blobs_rbr = [\<lparr>Chunks_brs = []\<rparr>]\<rparr>"
    by (simp add: wrongShape_def)
  have e: "InsertRows_err env_noChunks [] shared0 channel0 = Some (UnexpectedChunks 0)"
    by (simp add: env_noChunks_def run_defs)
  from InsertRows_wrong_shape [OF h1 h2 h3] h3 e show ?thesis by simp
qed

section \<open>A stale uploader\<close>

text \<open>
  C8. When the atomic cell of the uploader holds an error, as the refresh loop leaves it
  after a failed tick, \<open>InsertRows\<close> returns an error and adds no event to the trace: no
  upload and no registration. When the file has been built and encrypted, the error is the
  one of the acquisition of the uploader, wrapping the published error.
\<close>

theorem InsertRows_stale_uploader:
  assumes "err (uploaderAtomic sh) = Some e"
  shows "InsertRows_err env batch sh c \<noteq> None
       \<and> InsertRows_events env batch sh c = []
       \<and> (InsertRows_built env batch sh c \<noteq> None \<longrightarrow>
            InsertRows_err env batch sh c = Some (AcquireStageUploader e))"
proof (cases "InsertRows_built env batch sh c")
  case None
  from InsertRows_built_None [OF this] InsertRows_events_built_None [OF this] None
  show ?thesis by simp
next
  case (Some t)
  then obtain unencrypted metadata encrypted where
    built: "InsertRows_built env batch sh c = Some (unencrypted, metadata, encrypted)"
    by (cases t) auto
  from InsertRows_cases [OF built] assms
  have "InsertRows_err env batch sh c = Some (AcquireStageUploader e)"
    and "InsertRows_shared env batch sh c = sh\<lparr>requestIDCounter := requestIDCounter sh + 1\<rparr>"
    by auto
  then show ?thesis by (simp add: InsertRows_events_def)
qed

theorem InsertRows_stale_uploader_witness:
  "err (uploaderAtomic shared_stale) = Some (Collaborator ''unauthorized'')
   \<and> InsertRows_built env_ok [] shared_stale channel0 \<noteq> None
   \<and> InsertRows_err env_ok [] shared_stale channel0
       = Some (AcquireStageUploader (Collaborator ''unauthorized''))
   \<and> InsertRows_events env_ok [] shared_stale channel0 = []"
proof -
  have h: "err (uploaderAtomic shared_stale) = Some (Collaborator ''unauthorized'')"
    by (simp add: shared_stale_def uploadRefreshLoop_def env_cfgfail_def env_ok_def)
  have b: "InsertRows_built env_ok [] shared_stale channel0 \<noteq> None"
    by (simp add: InsertRows_built_def env_ok_def)
  from InsertRows_stale_uploader [OF h, of env_ok "[]" channel0] b
  have "InsertRows_err env_ok [] shared_stale channel0
          = Some (AcquireStageUploader (Collaborator ''unauthorized''))"
    and "InsertRows_events env_ok [] shared_stale channel0 = []"
    by blast+
  with h b show ?thesis by blast
qed

section \<open>The status of one channel\<close>

text \<open>
  C7. \<open>ChannelStatus\<close> returns an error whenever the response of the control plane has not
  exactly one channel entry (the error of the count when the status of the response is
  success), and it returns an offset token exactly when the transport succeeds, the status
  of the response is success, there is exactly one entry and the status of the entry is
  success; the token is then the persisted offset token of that entry.
\<close>

theorem ChannelStatus_single_entry:
  "(\<forall>resp. channelStatus env 0 (ChannelStatus_request c opts) = Inr resp \<longrightarrow>
        length (Channels_bcsr resp) \<noteq> 1 \<longrightarrow>
        (\<exists>e. fst (ChannelStatus env c opts sh) = Inl e) \<and>
        (StatusCode_bcsr resp = responseSuccess \<longrightarrow>
           fst (ChannelStatus env c opts sh)
             = Inl (FetchChannelCount (Name opts) (length (Channels_bcsr resp)))))
   \<and> (\<forall>tok. fst (ChannelStatus env c opts sh) = Inr tok \<longleftrightarrow>
        (\<exists>resp channel. channelStatus env 0 (ChannelStatus_request c opts) = Inr resp \<and>
           StatusCode_bcsr resp = responseSuccess \<and> Channels_bcsr resp = [channel] \<and>
           StatusCode_csr channel = responseSuccess \<and> tok = PersistedOffsetToken_csr channel))"
  by (auto simp: ChannelStatus_def Let_def split: sum.splits list.splits if_splits)

theorem ChannelStatus_single_entry_witness:
  "channelStatus env_noEntries 0 (ChannelStatus_request client0 options0)
     = Inr \<lparr>StatusCode_bcsr = 0, Message_bcsr = [], Channels_bcsr = []\<rparr>
   \<and> fst (ChannelStatus env_noEntries client0 options0 shared0) = Inl (FetchChannelCount ''ch'' 0)
   \<and> fst (ChannelStatus env_ok client0 options0 shared0) = Inr ''tok''"
proof -
  let ?resp = "\<lparr>StatusCode_bcsr = 0, Message_bcsr = [], Channels_bcsr = []\<rparr>"
  have h: "channelStatus env_noEntries 0 (ChannelStatus_request client0 options0) = Inr ?resp"
    by (simp add: env_noEntries_def env_ok_def)
  have n: "length (Channels_bcsr ?resp) \<noteq> 1" "StatusCode_bcsr ?resp = responseSuccess"
    by (simp_all add: responseSuccess_def)
  from ChannelStatus_single_entry [of env_noEntries client0 options0 shared0] h n
  have a: "fst (ChannelStatus env_noEntries client0 options0 shared0)
             = Inl (FetchChannelCount (Name options0) (length (Channels_bcsr ?resp)))"
    by blast
  have k: "channelStatus env_ok 0 (ChannelStatus_request client0 options0)
      = Inr \<lparr>StatusCode_bcsr = 0, Message_bcsr = [],
             Channels_bcsr = [\<lparr>StatusCode_csr = 0, PersistedOffsetToken_csr = ''tok'',
                               PersistedClientSequencer_csr = 0, PersistedRowSequencer_csr = 1\<rparr>]\<rparr>"
    by (simp add: env_ok_def)
  from ChannelStatus_single_entry [of env_ok client0 options0 shared0] k
  have b: "fst (ChannelStatus env_ok client0 options0 shared0) = Inr ''tok''"
    by (simp add: responseSuccess_def)
  from h a b show ?thesis by (simp add: options0_def)
qed

section \<open>The retried upload\<close>

lemma Retry_upload_ok:
  "upload env u i p b h = None \<Longrightarrow>
     Retry (uploadAttempt env u p b h) sleepShared ds cerr i sh =
       (None, sh\<lparr>trace := trace sh @ [UploadCall u p b h]\<rparr>)"
  using Retry_ok [of "uploadAttempt env u p b h" i sh "sh\<lparr>trace := trace sh @ [UploadCall u p b h]\<rparr>"
      sleepShared ds cerr]
  by (simp add: uploadAttempt_eq)

lemma Retry_upload_permanent:
  "upload env u i p b h = Some e \<Longrightarrow> asPermanent e = Some q \<Longrightarrow>
     Retry (uploadAttempt env u p b h) sleepShared ds cerr i sh =
       (Some q, sh\<lparr>trace := trace sh @ [UploadCall u p b h]\<rparr>)"
  using Retry_permanent [of "uploadAttempt env u p b h" i sh e
      "sh\<lparr>trace := trace sh @ [UploadCall u p b h]\<rparr>" q sleepShared ds cerr]
  by (simp add: uploadAttempt_eq)

lemma Retry_upload_stop:
  "upload env u i p b h = Some e \<Longrightarrow> asPermanent e = None \<Longrightarrow>
     Retry (uploadAttempt env u p b h) sleepShared [] cerr i sh =
       (case cerr of Some ce \<Rightarrow> Some ce | None \<Rightarrow> Some e,
        sh\<lparr>trace := trace sh @ [UploadCall u p b h]\<rparr>)"
  using Retry_stop [of "uploadAttempt env u p b h" i sh e
      "sh\<lparr>trace := trace sh @ [UploadCall u p b h]\<rparr>" sleepShared cerr]
  by (simp add: uploadAttempt_eq)

lemma Retry_upload_again:
  "upload env u i p b h = Some e \<Longrightarrow> asPermanent e = None \<Longrightarrow>
     Retry (uploadAttempt env u p b h) sleepShared (d # ds) cerr i sh =
       Retry (uploadAttempt env u p b h) sleepShared ds cerr (Suc i)
         (sh\<lparr>trace := trace sh @ [UploadCall u p b h, Sleep d]\<rparr>)"
  using Retry_again [of "uploadAttempt env u p b h" i sh e
      "sh\<lparr>trace := trace sh @ [UploadCall u p b h]\<rparr>" sleepShared d ds cerr]
  by (simp add: uploadAttempt_eq sleepShared_def emit_def)

lemma Retry_upload_all_fail:
  "\<forall>j\<le>length ds. upload env u (i + j) p b h \<noteq> None \<Longrightarrow>
     fst (Retry (uploadAttempt env u p b h) sleepShared ds cerr i sh) \<noteq> None"
proof (induction ds arbitrary: i sh)
  case Nil
  then obtain e where e: "upload env u i p b h = Some e" by auto
  show ?case
  proof (cases "asPermanent e")
    case None
    show ?thesis unfolding Retry_upload_stop [OF e None]
      by (simp split: option.splits)
  next
    case (Some q)
    show ?thesis unfolding Retry_upload_permanent [OF e Some] by simp
  qed
next
  case (Cons d ds)
  from Cons.prems have "upload env u (i + 0) p b h \<noteq> None" by blast
  then obtain e where e: "upload env u i p b h = Some e" by auto
  show ?case
  proof (cases "asPermanent e")
    case None
    have "\<forall>j\<le>length ds. upload env u (Suc i + j) p b h \<noteq> None"
    proof (intro allI impI)
      fix j assume "j \<le> length ds"
      then have "Suc j \<le> length (d # ds)" by simp
      with Cons.prems have "upload env u (i + Suc j) p b h \<noteq> None" by blast
      then show "upload env u (Suc i + j) p b h \<noteq> None" by simp
    qed
    from Cons.IH [OF this] show ?thesis
      unfolding Retry_upload_again [OF e None] by simp
  next
    case (Some q)
    show ?thesis unfolding Retry_upload_permanent [OF e Some] by simp
  qed
qed

lemma Retry_upload_first_success:
  "k \<le> length ds \<Longrightarrow> upload env u (i + k) p b h = None \<Longrightarrow>
   \<forall>j<k. \<exists>e. upload env u (i + j) p b h = Some e \<and> asPermanent e = None \<Longrightarrow>
     Retry (uploadAttempt env u p b h) sleepShared ds cerr i sh =
       (None, sh\<lparr>trace := trace sh @ uploadEvents u p b h (take k ds)\<rparr>)"
proof (induction ds arbitrary: i sh k)
  case Nil
  then have "upload env u i p b h = None" by simp
  show ?case unfolding Retry_upload_ok [OF \<open>upload env u i p b h = None\<close>] by simp
next
  case (Cons d ds)
  show ?case
  proof (cases k)
    case 0
    with Cons.prems have "upload env u i p b h = None" by simp
    show ?thesis unfolding Retry_upload_ok [OF \<open>upload env u i p b h = None\<close>] using 0 by simp
  next
    case (Suc k')
    with Cons.prems(3) have "\<exists>e. upload env u (i + 0) p b h = Some e \<and> asPermanent e = None"
      by blast
    then obtain e where e: "upload env u i p b h = Some e" "asPermanent e = None" by auto
    have k': "k' \<le> length ds" using Cons.prems(1) Suc by simp
    have s: "upload env u (Suc i + k') p b h = None" using Cons.prems(2) Suc by simp
    have f: "\<forall>j<k'. \<exists>e. upload env u (Suc i + j) p b h = Some e \<and> asPermanent e = None"
    proof (intro allI impI)
      fix j assume "j < k'"
      then have "Suc j < k" using Suc by simp
      with Cons.prems(3) have "\<exists>e. upload env u (i + Suc j) p b h = Some e \<and> asPermanent e = None"
        by blast
      then show "\<exists>e. upload env u (Suc i + j) p b h = Some e \<and> asPermanent e = None" by simp
    qed
    show ?thesis
      unfolding Retry_upload_again [OF e] Cons.IH [OF k' s f] using Suc by simp
  qed
qed

lemma InsertRows_upload_failed:
  assumes cell: "uploaderAtomic sh = \<lparr>uploader = Some u, err = None\<rparr>"
    and ret: "Retry (uploadAttempt env u path encrypted (md5_Sum env encrypted)) sleepShared
                (replicate 3 1000) None 0 sh = (Some e, sh2)"
  shows "InsertRows_upload env batch stats t0 path n metadata encrypted sh c = ((stats, Some e), sh2, c)"
  using cell ret by (simp add: InsertRows_upload_def WithMaxRetries_Constant_def)

lemma InsertRows_upload_uploaded:
  assumes cell: "uploaderAtomic sh = \<lparr>uploader = Some u, err = None\<rparr>"
    and ret: "Retry (uploadAttempt env u path encrypted (md5_Sum env encrypted)) sleepShared
                (replicate 3 1000) None 0 sh = (None, sh2)"
  shows "trace (fst (snd (InsertRows_upload env batch stats t0 path n metadata encrypted sh c))) =
           trace sh2 @
           (if length encrypted < n then []
            else [RegisterBlobCall (registerBlobRequestOf env c batch
                    (sprintf_s_d (clientPrefix c) (requestIDCounter sh2 + 1)) path encrypted
                    (md5_Sum env encrypted) n metadata t0 (time_Now env 1) (time_Now env 2))])"
  using cell ret
  by (simp add: InsertRows_upload_def WithMaxRetries_Constant_def nextRequestID_def emit_def Let_def
        split: sum.splits prod.splits)

text \<open>
  C5, as amended. With the file built and encrypted and an uploader in the cell, the upload
  runs under the policy of 3 retries with a delay of one second: at most 4 attempts. A
  call whose upload fails on each of the attempts 0 to 3 returns an error, registers no
  blob and has made at most 4 uploads. A call whose attempt \<open>k \<le> 3\<close> is the first to
  succeed, the earlier ones failing with errors that are not permanent, makes \<open>k + 1\<close>
  uploads with a sleep of 1000 ms after each failed one, and then sends the registration
  (unless the ciphertext is shorter than the file, where the slice expression panics).
\<close>

theorem InsertRows_upload_retries:
  assumes built: "InsertRows_built env batch sh c = Some (unencrypted, metadata, encrypted)"
    and cell: "uploaderAtomic sh = \<lparr>uploader = Some u, err = None\<rparr>"
  shows "((\<forall>j\<le>3. upload env u j (blobPath env sh c) encrypted (md5_Sum env encrypted) \<noteq> None) \<longrightarrow>
            InsertRows_err env batch sh c \<noteq> None
          \<and> filter isRegisterBlobCall (InsertRows_events env batch sh c) = []
          \<and> length (filter isUploadCall (InsertRows_events env batch sh c)) \<le> 4)
       \<and> (\<forall>k\<le>3. upload env u k (blobPath env sh c) encrypted (md5_Sum env encrypted) = None \<longrightarrow>
            (\<forall>j<k. \<exists>e. upload env u j (blobPath env sh c) encrypted (md5_Sum env encrypted) = Some e
                       \<and> asPermanent e = None) \<longrightarrow>
            InsertRows_events env batch sh c =
              uploadEvents u (blobPath env sh c) encrypted (md5_Sum env encrypted) (replicate k 1000) @
              (if length encrypted < length unencrypted then []
               else [RegisterBlobCall (InsertRows_request env batch sh c unencrypted metadata encrypted)]))"
proof (intro conjI impI allI)
  let ?p = "blobPath env sh c" and ?h = "md5_Sum env encrypted"
  let ?sh1 = "sh\<lparr>requestIDCounter := requestIDCounter sh + 1\<rparr>"
  let ?c2 = "InsertRows_c2 env sh c unencrypted"
  have run: "InsertRows env batch sh c =
     InsertRows_upload env batch InsertStats_zero (time_Now env 0) ?p
       (length unencrypted) metadata encrypted ?sh1 ?c2"
    by (rule InsertRows_built_Some [OF built])
  have cell1: "uploaderAtomic ?sh1 = \<lparr>uploader = Some u, err = None\<rparr>"
    using cell by simp
  {
    assume fail: "\<forall>j\<le>3. upload env u j ?p encrypted ?h \<noteq> None"
    obtain r sh2 where ret: "Retry (uploadAttempt env u ?p encrypted ?h) sleepShared
        (replicate 3 1000) None 0 ?sh1 = (r, sh2)"
      by (cases "Retry (uploadAttempt env u ?p encrypted ?h) sleepShared (replicate 3 1000) None 0 ?sh1")
    from fail have "\<forall>j\<le>length (replicate 3 (1000::nat)). upload env u (0 + j) ?p encrypted ?h \<noteq> None"
      by simp
    from Retry_upload_all_fail [OF this, where cerr = None and sh = ?sh1] ret obtain e where r: "r = Some e"
      by auto
    from Retry_upload_trace [OF ret] obtain k where k: "k \<le> 3"
      and sh2: "sh2 = ?sh1\<lparr>trace := trace ?sh1 @ uploadEvents u ?p encrypted ?h (take k (replicate 3 1000))\<rparr>"
      by auto
    from InsertRows_upload_failed [OF cell1 ret [unfolded r]] run
    have res: "InsertRows env batch sh c = ((InsertStats_zero, Some e), sh2, ?c2)" by simp
    then have ev: "InsertRows_events env batch sh c = uploadEvents u ?p encrypted ?h (replicate k 1000)"
      using k by (simp add: InsertRows_events_def InsertRows_shared_def sh2 min_def)
    show "InsertRows_err env batch sh c \<noteq> None"
      using res by (simp add: InsertRows_err_def)
    show "filter isRegisterBlobCall (InsertRows_events env batch sh c) = []"
      by (simp add: ev filter_register_uploadEvents)
    show "length (filter isUploadCall (InsertRows_events env batch sh c)) \<le> 4"
      using k by (simp add: ev filter_upload_uploadEvents)
  }
  fix k
  assume k: "k \<le> 3"
    and ok: "upload env u k ?p encrypted ?h = None"
    and before: "\<forall>j<k. \<exists>e. upload env u j ?p encrypted ?h = Some e \<and> asPermanent e = None"
  define sh2 where "sh2 = ?sh1\<lparr>trace := trace ?sh1 @ uploadEvents u ?p encrypted ?h (replicate k 1000)\<rparr>"
  have tk: "take k (replicate 3 (1000::nat)) = replicate k 1000"
    using k by (simp add: min_def)
  have "Retry (uploadAttempt env u ?p encrypted ?h) sleepShared (replicate 3 1000) None 0 ?sh1 =
       (None, ?sh1\<lparr>trace := trace ?sh1 @ uploadEvents u ?p encrypted ?h (take k (replicate 3 1000))\<rparr>)"
    using k ok before by (intro Retry_upload_first_success) simp_all
  then have ret: "Retry (uploadAttempt env u ?p encrypted ?h) sleepShared (replicate 3 1000) None 0 ?sh1
       = (None, sh2)"
    unfolding tk sh2_def .
  have cnt: "requestIDCounter sh2 + 1 = requestIDCounter sh + 2"
    and trs: "trace sh2 = trace sh @ uploadEvents u ?p encrypted ?h (replicate k 1000)"
    by (simp_all add: sh2_def)
  have cp: "clientPrefix ?c2 = clientPrefix c"
    by (simp add: InsertRows_c2_def)
  have "trace (fst (snd (InsertRows env batch sh c))) =
          trace sh @ uploadEvents u ?p encrypted ?h (replicate k 1000) @
          (if length encrypted < length unencrypted then []
           else [RegisterBlobCall (InsertRows_request env batch sh c unencrypted metadata encrypted)])"
    using InsertRows_upload_uploaded [OF cell1 ret, of batch InsertStats_zero "time_Now env 0"
      "length unencrypted" metadata ?c2]
    unfolding run cnt trs cp InsertRows_request_def by simp
  then show "InsertRows_events env batch sh c =
              uploadEvents u ?p encrypted ?h (replicate k 1000) @
              (if length encrypted < length unencrypted then []
               else [RegisterBlobCall (InsertRows_request env batch sh c unencrypted metadata encrypted)])"
    by (simp add: InsertRows_events_def InsertRows_shared_def)
qed

theorem InsertRows_upload_retries_witness:
  "InsertRows_built env_down [] shared0 channel0
       = Some ([80, 65, 82], \<lparr>NumRows = 3\<rparr>, rev ([80, 65, 82] @ replicate 13 0))
   \<and> uploaderAtomic shared0 = \<lparr>uploader = Some (Uploader ''stage''), err = None\<rparr>
   \<and> InsertRows_err env_down [] shared0 channel0 \<noteq> None
   \<and> filter isRegisterBlobCall (InsertRows_events env_down [] shared0 channel0) = []
   \<and> length (filter isUploadCall (InsertRows_events env_down [] shared0 channel0)) \<le> 4
   \<and> InsertRows_events env_flaky [] shared0 channel0 =
        uploadEvents (Uploader ''stage'') (blobPath env_flaky shared0 channel0)
          (rev ([80, 65, 82] @ replicate 13 0)) (md5_Sum env_flaky (rev ([80, 65, 82] @ replicate 13 0)))
          (replicate 3 1000) @
        [RegisterBlobCall (InsertRows_request env_flaky [] shared0 channel0 [80, 65, 82]
           \<lparr>NumRows = 3\<rparr> (rev ([80, 65, 82] @ replicate 13 0)))]"
proof -
  let ?enc = "rev ([80, 65, 82] @ replicate 13 (0::8 word))"
  have cell: "uploaderAtomic shared0 = \<lparr>uploader = Some (Uploader ''stage''), err = None\<rparr>"
    by (simp add: shared0_def)
  have b1: "InsertRows_built env_down [] shared0 channel0 = Some ([80, 65, 82], \<lparr>NumRows = 3\<rparr>, ?enc)"
    by (simp add: InsertRows_built_def env_down_def env_ok_def aes_BlockSize_def)
  have f1: "\<forall>j\<le>3. upload env_down (Uploader ''stage'') j (blobPath env_down shared0 channel0) ?enc
              (md5_Sum env_down ?enc) \<noteq> None"
    by (simp add: env_down_def)
  from InsertRows_upload_retries [OF b1 cell] f1
  have d: "InsertRows_err env_down [] shared0 channel0 \<noteq> None"
      "filter isRegisterBlobCall (InsertRows_events env_down [] shared0 channel0) = []"
      "length (filter isUploadCall (InsertRows_events env_down [] shared0 channel0)) \<le> 4"
    by blast+
  have b2: "InsertRows_built env_flaky [] shared0 channel0 = Some ([80, 65, 82], \<lparr>NumRows = 3\<rparr>, ?enc)"
    by (simp add: InsertRows_built_def env_flaky_def env_ok_def aes_BlockSize_def)
  have k: "(3::nat) \<le> 3" by simp
  have s: "upload env_flaky (Uploader ''stage'') 3 (blobPath env_flaky shared0 channel0) ?enc
              (md5_Sum env_flaky ?enc) = None"
    by (simp add: env_flaky_def)
  have f2: "\<forall>j<3. \<exists>e. upload env_flaky (Uploader ''stage'') j (blobPath env_flaky shared0 channel0) ?enc
              (md5_Sum env_flaky ?enc) = Some e \<and> asPermanent e = None"
    by (simp add: env_flaky_def)
  have n: "\<not> length ?enc < length [80, 65, 82 :: 8 word]" by simp
  from InsertRows_upload_retries [OF b2 cell] k s f2
  have "InsertRows_events env_flaky [] shared0 channel0 =
        uploadEvents (Uploader ''stage'') (blobPath env_flaky shared0 channel0) ?enc
          (md5_Sum env_flaky ?enc) (replicate 3 1000) @
        (if length ?enc < length [80, 65, 82 :: 8 word] then []
         else [RegisterBlobCall (InsertRows_request env_flaky [] shared0 channel0 [80, 65, 82]
           \<lparr>NumRows = 3\<rparr> ?enc)])"
    by blast
  with n have e: "InsertRows_events env_flaky [] shared0 channel0 =
        uploadEvents (Uploader ''stage'') (blobPath env_flaky shared0 channel0) ?enc
          (md5_Sum env_flaky ?enc) (replicate 3 1000) @
        [RegisterBlobCall (InsertRows_request env_flaky [] shared0 channel0 [80, 65, 82]
           \<lparr>NumRows = 3\<rparr> ?enc)]"
    by (simp only: if_False)
  from b1 cell d e show ?thesis by blast
qed

text \<open>
  C5, as stated, fails: on a stage whose attempts 0, 1 and 2 fail, that is on every one of
  three attempts, the call makes a fourth upload, which succeeds, registers the blob and
  returns without an error.
\<close>

theorem InsertRows_fourth_attempt:
  "upload env_flaky (Uploader ''stage'') 0 (blobPath env_flaky shared0 channel0)
       (rev ([80, 65, 82] @ replicate 13 0)) [0] \<noteq> None
   \<and> upload env_flaky (Uploader ''stage'') 1 (blobPath env_flaky shared0 channel0)
       (rev ([80, 65, 82] @ replicate 13 0)) [0] \<noteq> None
   \<and> upload env_flaky (Uploader ''stage'') 2 (blobPath env_flaky shared0 channel0)
       (rev ([80, 65, 82] @ replicate 13 0)) [0] \<noteq> None
   \<and> InsertRows_err env_flaky [] shared0 channel0 = None
   \<and> map isUploadCall (InsertRows_events env_flaky [] shared0 channel0)
       = [True, False, True, False, True, False, True, False]
   \<and> map isRegisterBlobCall (InsertRows_events env_flaky [] shared0 channel0)
       = [False, False, False, False, False, False, False, True]"
  by (simp add: env_flaky_def run_defs)

section \<open>Waiting for the commit\<close>

lemma observes_exclusive: "observesDiverged env c i \<Longrightarrow> \<not> observesCommitted env c i"
  by (auto simp: observesDiverged_def observesCommitted_def split: sum.splits list.splits)

lemma pollOnce_result:
  "\<exists>r. pollOnce env c i (p, sh) =
          (r, Suc p, sh\<lparr>trace := trace sh @ [ChannelStatusCall (WaitUntilCommitted_request c)]\<rparr>)
       \<and> (r = None \<longleftrightarrow> observesCommitted env c i)
       \<and> (observesDiverged env c i \<longrightarrow> r = Some (Permanent (UnexpectedStatusChannels 1)))"
  by (auto simp: pollOnce_def observesCommitted_def observesDiverged_def emit_def Let_def
        split: sum.splits list.splits)

lemma count_status_snoc:
  "length (filter isChannelStatusCall (evs @ [ChannelStatusCall r])) =
     Suc (length (filter isChannelStatusCall evs))"
  by simp

lemma Retry_poll:
  "Retry (pollOnce env c) sleepPoll ds cerr i (p, sh) = (e, p', sh') \<Longrightarrow>
     \<exists>m\<le>length ds. p' = p + Suc m
       \<and> (\<forall>j<m. \<not> observesCommitted env c (i + j) \<and> \<not> observesDiverged env c (i + j))
       \<and> (e = None \<longleftrightarrow> observesCommitted env c (i + m))
       \<and> (observesDiverged env c (i + m) \<longrightarrow> e = Some (UnexpectedStatusChannels 1))
       \<and> length (filter isChannelStatusCall (trace sh')) =
           length (filter isChannelStatusCall (trace sh)) + Suc m
       \<and> (\<exists>evs. trace sh' = trace sh @ evs)"
proof (induction ds arbitrary: i p sh)
  case Nil
  let ?s1 = "sh\<lparr>trace := trace sh @ [ChannelStatusCall (WaitUntilCommitted_request c)]\<rparr>"
  from pollOnce_result [of env c i p sh] obtain r where
    po: "pollOnce env c i (p, sh) = (r, Suc p, ?s1)"
    and ok: "r = None \<longleftrightarrow> observesCommitted env c i"
    and dv: "observesDiverged env c i \<longrightarrow> r = Some (Permanent (UnexpectedStatusChannels 1))"
    by blast
  from Nil po have res: "p' = Suc p" "sh' = ?s1"
    and e: "e = (case r of None \<Rightarrow> None
                 | Some x \<Rightarrow> (case asPermanent x of Some q \<Rightarrow> Some q
                              | None \<Rightarrow> (case cerr of Some ce \<Rightarrow> Some ce | None \<Rightarrow> Some x)))"
    by (auto split: option.splits)
  have "e = None \<longleftrightarrow> observesCommitted env c i"
    using e ok by (auto split: option.splits)
  moreover have "observesDiverged env c i \<longrightarrow> e = Some (UnexpectedStatusChannels 1)"
    using e dv by auto
  ultimately show ?case using res by (intro exI [of _ 0]) simp
next
  case (Cons d ds)
  let ?s1 = "sh\<lparr>trace := trace sh @ [ChannelStatusCall (WaitUntilCommitted_request c)]\<rparr>"
  from pollOnce_result [of env c i p sh] obtain r where
    po: "pollOnce env c i (p, sh) = (r, Suc p, ?s1)"
    and ok: "r = None \<longleftrightarrow> observesCommitted env c i"
    and dv: "observesDiverged env c i \<longrightarrow> r = Some (Permanent (UnexpectedStatusChannels 1))"
    by blast
  show ?case
  proof (cases "\<exists>x. r = Some x \<and> asPermanent x = None")
    case True
    then obtain x where x: "r = Some x" "asPermanent x = None" by blast
    let ?s2 = "?s1\<lparr>trace := trace ?s1 @ [Sleep d]\<rparr>"
    have sp: "sleepPoll d (Suc p, ?s1) = (Suc p, ?s2)"
      by (simp add: sleepPoll_def emit_def)
    from Cons.prems po x
    have "Retry (pollOnce env c) sleepPoll ds cerr (Suc i) (sleepPoll d (Suc p, ?s1)) = (e, p', sh')"
      by simp
    then have "Retry (pollOnce env c) sleepPoll ds cerr (Suc i) (Suc p, ?s2) = (e, p', sh')"
      unfolding sp .
    from Cons.IH [OF this] obtain m where m: "m \<le> length ds" "p' = Suc p + Suc m"
      and nb: "\<forall>j<m. \<not> observesCommitted env c (Suc i + j) \<and> \<not> observesDiverged env c (Suc i + j)"
      and fin: "e = None \<longleftrightarrow> observesCommitted env c (Suc i + m)"
        "observesDiverged env c (Suc i + m) \<longrightarrow> e = Some (UnexpectedStatusChannels 1)"
      and cnt: "length (filter isChannelStatusCall (trace sh')) =
           length (filter isChannelStatusCall (trace ?s2)) + Suc m"
      and ext: "\<exists>evs. trace sh' = trace ?s2 @ evs"
      by blast
    have i0: "\<not> observesCommitted env c i" "\<not> observesDiverged env c i"
      using x ok dv by auto
    have nb': "\<forall>j<Suc m. \<not> observesCommitted env c (i + j) \<and> \<not> observesDiverged env c (i + j)"
    proof (intro allI impI)
      fix j assume j: "j < Suc m"
      show "\<not> observesCommitted env c (i + j) \<and> \<not> observesDiverged env c (i + j)"
      proof (cases j)
        case 0
        with i0 show ?thesis by simp
      next
        case (Suc j')
        with j nb have "\<not> observesCommitted env c (Suc i + j') \<and> \<not> observesDiverged env c (Suc i + j')"
          by simp
        with Suc show ?thesis by simp
      qed
    qed
    have cnt': "length (filter isChannelStatusCall (trace sh')) =
           length (filter isChannelStatusCall (trace sh)) + Suc (Suc m)"
      using cnt by simp
    have ext': "\<exists>evs. trace sh' = trace sh @ evs"
      using ext by auto
    from m nb' fin cnt' ext' show ?thesis
      by (intro exI [of _ "Suc m"]) simp
  next
    case False
    from Cons.prems po False have res: "p' = Suc p" "sh' = ?s1"
      and e: "e = (case r of None \<Rightarrow> None | Some x \<Rightarrow> asPermanent x)"
      by (auto split: option.splits)
    have "e = None \<longleftrightarrow> observesCommitted env c i"
      using e ok False by (auto split: option.splits)
    moreover have "observesDiverged env c i \<longrightarrow> e = Some (UnexpectedStatusChannels 1)"
      using e dv by auto
    ultimately show ?thesis using res by (intro exI [of _ 0]) simp
  qed
qed

lemmas wait_defs = WaitUntilCommitted_def WaitUntilCommitted_polls_def WaitUntilCommitted_err_def
  WaitUntilCommitted_request_def pollOnce_def sleepPoll_def emit_def responseSuccess_def Let_def
  env_ok_def shared0_def channel0_def channel1_def

text \<open>
  C3, as amended. \<open>WaitUntilCommitted\<close> returns without an error if and only if one of the
  polls it performs observes the commit: a successful response with exactly one channel
  entry whose persisted client sequencer is the local one and whose persisted row
  sequencer is not behind the local row sequencer. A poll that observes a diverged client
  sequencer (a successful response with one entry whose persisted client sequencer differs
  from the local one) ends the call at once with the cause of the permanent error, and
  so does the poll that observes the commit: no poll follows either. The call polls at
  least once and at most once more than the policy grants delays, and sends one status
  request per poll.
\<close>

theorem WaitUntilCommitted_verdict:
  "(WaitUntilCommitted_err env sh c = None \<longleftrightarrow>
      (\<exists>i<WaitUntilCommitted_polls env sh c. observesCommitted env c i))
   \<and> (\<forall>i<WaitUntilCommitted_polls env sh c. observesDiverged env c i \<longrightarrow>
        WaitUntilCommitted_err env sh c = Some (UnexpectedStatusChannels 1) \<and>
        WaitUntilCommitted_polls env sh c = Suc i)
   \<and> (\<forall>i<WaitUntilCommitted_polls env sh c. observesCommitted env c i \<longrightarrow>
        WaitUntilCommitted_polls env sh c = Suc i)
   \<and> 1 \<le> WaitUntilCommitted_polls env sh c
   \<and> WaitUntilCommitted_polls env sh c \<le> Suc (length (commitDelays env))
   \<and> length (filter isChannelStatusCall (WaitUntilCommitted_events env sh c))
       = WaitUntilCommitted_polls env sh c"
proof -
  obtain e p' sh' where run:
    "Retry (pollOnce env c) sleepPoll (commitDelays env) (ctx_Err env) 0 (0, sh) = (e, p', sh')"
    by (cases "Retry (pollOnce env c) sleepPoll (commitDelays env) (ctx_Err env) 0 (0, sh)")
  then have w: "WaitUntilCommitted env sh c = ((p', e), sh')"
    by (simp add: WaitUntilCommitted_def)
  from Retry_poll [OF run] obtain m evs where m: "m \<le> length (commitDelays env)" "p' = 0 + Suc m"
    and nb: "\<forall>j<m. \<not> observesCommitted env c j \<and> \<not> observesDiverged env c j"
    and fin: "e = None \<longleftrightarrow> observesCommitted env c m"
      "observesDiverged env c m \<longrightarrow> e = Some (UnexpectedStatusChannels 1)"
    and cnt: "length (filter isChannelStatusCall (trace sh')) =
           length (filter isChannelStatusCall (trace sh)) + Suc m"
    and ext: "trace sh' = trace sh @ evs"
    unfolding add_0 by blast
  have polls: "WaitUntilCommitted_polls env sh c = Suc m"
    and err: "WaitUntilCommitted_err env sh c = e"
    by (simp_all add: WaitUntilCommitted_polls_def WaitUntilCommitted_err_def w m(2))
  have last: "i = m" if "i < Suc m" "observesCommitted env c i \<or> observesDiverged env c i" for i
  proof (rule ccontr)
    assume "i \<noteq> m"
    with that(1) have "i < m" by simp
    with nb that(2) show False by blast
  qed
  have a: "e = None \<longleftrightarrow> (\<exists>i<Suc m. observesCommitted env c i)"
    using fin(1) last by blast
  have b: "\<forall>i<Suc m. observesDiverged env c i \<longrightarrow> e = Some (UnexpectedStatusChannels 1) \<and> Suc m = Suc i"
    using fin(2) last by blast
  have c: "\<forall>i<Suc m. observesCommitted env c i \<longrightarrow> Suc m = Suc i"
    using last by blast
  have "WaitUntilCommitted_events env sh c = evs"
    by (simp add: WaitUntilCommitted_events_def w ext)
  moreover have "length (filter isChannelStatusCall evs) = Suc m"
    using cnt by (simp add: ext)
  ultimately have d: "length (filter isChannelStatusCall (WaitUntilCommitted_events env sh c)) = Suc m"
    by simp
  have f1: "1 \<le> Suc m" by simp
  have f2: "Suc m \<le> Suc (length (commitDelays env))" using m(1) by simp
  show ?thesis
    unfolding polls err by (intro conjI a b c d f1 f2)
qed

theorem WaitUntilCommitted_verdict_witness:
  "WaitUntilCommitted_polls env_late shared0 channel1 = 2
   \<and> observesCommitted env_late channel1 1
   \<and> WaitUntilCommitted_err env_late shared0 channel1 = None
   \<and> observesDiverged env_reopened channel0 0
   \<and> WaitUntilCommitted_polls env_reopened shared0 channel0 = 1
   \<and> WaitUntilCommitted_err env_reopened shared0 channel0 = Some (UnexpectedStatusChannels 1)"
proof -
  have p: "WaitUntilCommitted_polls env_late shared0 channel1 = 2"
    by (simp add: env_late_def wait_defs)
  have o: "observesCommitted env_late channel1 1"
    by (simp add: observesCommitted_def env_late_def wait_defs)
  have "\<exists>i<WaitUntilCommitted_polls env_late shared0 channel1. observesCommitted env_late channel1 i"
    using p o by (intro exI [of _ 1]) simp
  with WaitUntilCommitted_verdict [of env_late shared0 channel1]
  have e: "WaitUntilCommitted_err env_late shared0 channel1 = None"
    by blast
  have d: "observesDiverged env_reopened channel0 0"
    by (simp add: observesDiverged_def env_reopened_def wait_defs)
  from WaitUntilCommitted_verdict [of env_reopened shared0 channel0]
  have "1 \<le> WaitUntilCommitted_polls env_reopened shared0 channel0" by blast
  then have z: "0 < WaitUntilCommitted_polls env_reopened shared0 channel0" by simp
  from WaitUntilCommitted_verdict [of env_reopened shared0 channel0]
  have "\<forall>i<WaitUntilCommitted_polls env_reopened shared0 channel0.
          observesDiverged env_reopened channel0 i \<longrightarrow>
          WaitUntilCommitted_err env_reopened shared0 channel0 = Some (UnexpectedStatusChannels 1) \<and>
          WaitUntilCommitted_polls env_reopened shared0 channel0 = Suc i"
    by blast
  with z d have r: "WaitUntilCommitted_err env_reopened shared0 channel0 = Some (UnexpectedStatusChannels 1)"
      "WaitUntilCommitted_polls env_reopened shared0 channel0 = Suc 0"
    by blast+
  from p o e d r show ?thesis by simp
qed

text \<open>
  C3, as stated, fails: the one poll of a channel that was reopened elsewhere observes the
  persisted row sequencer 5, not behind the local row sequencer 0, and the call returns an
  error, because the persisted client sequencer 7 is not the local one.
\<close>

theorem WaitUntilCommitted_reopened:
  "channelStatus env_reopened 0 (WaitUntilCommitted_request channel0)
     = Inr \<lparr>StatusCode_bcsr = 0, Message_bcsr = [],
            Channels_bcsr = [\<lparr>StatusCode_csr = 0, PersistedOffsetToken_csr = ''tok'',
                              PersistedClientSequencer_csr = 7, PersistedRowSequencer_csr = 5\<rparr>]\<rparr>
   \<and> sint (rowSequencer channel0) \<le> sint (5 :: int64)
   \<and> WaitUntilCommitted_polls env_reopened shared0 channel0 = 1
   \<and> WaitUntilCommitted_err env_reopened shared0 channel0 = Some (UnexpectedStatusChannels 1)"
  by (simp add: env_reopened_def wait_defs)

end
